theory Spec2Isabelle
  imports Complex_Main "HOL-Library.Char_ord" "HOL-Library.List_Lexorder" "HOL-Library.Multiset"
begin

section \<open>Errors\<close>

text \<open>
  The exceptions the modelled Python code can raise.  A function that may raise returns
  \<open>py_error + 'a\<close>, with \<open>Inl\<close> for the exception.
\<close>

datatype py_error =
  KeyError | IndexError | TypeError | AttributeError | ZeroDivisionError
  | SessionError | FileNotFoundError | IsADirectoryError | NotADirectoryError
  | UnpicklingError

section \<open>jack/core/tensorport.py: TensorPort\<close>

text \<open>
  A \<open>TensorPort\<close> object.  The class defines \<open>__gt__\<close> and \<open>__repr__\<close> only; it defines
  neither \<open>__eq__\<close> nor \<open>__hash__\<close>, so \<open>==\<close>, \<open>in\<close> and dictionary lookup fall back to
  Python's default, the identity of the object.  The field \<open>ident\<close> is that identity
  (what \<open>id(port)\<close> returns); the other fields are the attributes set by \<open>__init__\<close>.
  A dimension of the shape is \<open>None\<close> when its size is variable.
\<close>

record TensorPort =
  ident :: nat
  dtype :: string
  shape :: "nat option list"
  name :: string
  doc_string :: "string option"
  shape_string :: "string option"

text \<open>\<open>def __gt__(self, port): return self.name > port.name\<close>\<close>

definition TensorPort_gt :: "TensorPort \<Rightarrow> TensorPort \<Rightarrow> bool" where
  "TensorPort_gt self port = (name self > name port)"

text \<open>\<open>self == port\<close>: no \<open>__eq__\<close> in the class, so \<open>object.__eq__\<close>, which is \<open>self is port\<close>.\<close>

definition TensorPort_eq :: "TensorPort \<Rightarrow> TensorPort \<Rightarrow> bool" where
  "TensorPort_eq self port = (ident self = ident port)"

section \<open>jack/core/tensorflow.py: TFModelModule\<close>

text \<open>
  A list comprehension \<open>[f(x) for x in xs]\<close> whose body may raise: the first exception
  ends the comprehension.
\<close>

fun map_err :: "('a \<Rightarrow> py_error + 'b) \<Rightarrow> 'a list \<Rightarrow> py_error + 'b list" where
  "map_err f [] = Inr []"
| "map_err f (x # xs) =
     (case f x of
        Inl e \<Rightarrow> Inl e
      | Inr y \<Rightarrow> (case map_err f xs of Inl e \<Rightarrow> Inl e | Inr ys \<Rightarrow> Inr (y # ys)))"

text \<open>\<open>d[k]\<close> on a dictionary: \<open>KeyError\<close> when the key is absent.\<close>

definition getitem :: "('k \<rightharpoonup> 'a) \<Rightarrow> 'k \<Rightarrow> py_error + 'a" where
  "getitem d k = (case d k of None \<Rightarrow> Inl KeyError | Some v \<Rightarrow> Inr v)"

text \<open>
  \<open>dict(zip(ks, vs))\<close>: the pairs are inserted from left to right, a later pair replacing
  an earlier one with the same key; \<open>zip\<close> stops at the shorter list.
\<close>

definition dict_zip :: "'k list \<Rightarrow> 'a list \<Rightarrow> ('k \<rightharpoonup> 'a)" where
  "dict_zip ks vs = fold (\<lambda>(k, v) d. d(k \<mapsto> v)) (zip ks vs) Map.empty"

text \<open>
  The state of a \<open>TFModelModule\<close> that \<open>__call__\<close> reads.  \<open>'p\<close> is the type of port
  objects as dictionary keys and list members (compared by \<open>==\<close>, which for a
  \<open>TensorPort\<close> is the identity of the object), \<open>'t\<close> the type of graph tensors and
  \<open>'v\<close> the type of array values.  \<open>tensors\<close> and \<open>placeholders\<close> are \<open>None\<close> until
  \<open>setup\<close> has run (\<open>__init__\<close> sets both to \<open>None\<close>); \<open>placeholders\<close> keeps the
  dictionary's item order.  \<open>tf_session\<close> stands for the TensorFlow session: it evaluates
  one fetched tensor under a feed dictionary, or raises.
\<close>

record ('p, 't, 'v) TFModelModule =
  output_ports :: "'p list"
  training_output_ports :: "'p list"
  tensors :: "('p \<rightharpoonup> 't) option"
  placeholders :: "('p \<times> 't) list option"
  tf_session :: "('t \<rightharpoonup> 'v) \<Rightarrow> 't \<Rightarrow> py_error + 'v"

text \<open>
  \<open>result = {ph: mapping[port] for port, ph in self.placeholders.items() if port in mapping}\<close>
\<close>

definition convert_to_feed_dict ::
  "('p, 't, 'v) TFModelModule \<Rightarrow> ('p \<rightharpoonup> 'v) \<Rightarrow> py_error + ('t \<rightharpoonup> 'v)" where
  "convert_to_feed_dict self mapping =
     (case placeholders self of
        None \<Rightarrow> Inl AttributeError
      | Some items \<Rightarrow>
          Inr (fold (\<lambda>(port, ph) result.
                       case mapping port of None \<Rightarrow> result | Some a \<Rightarrow> result(ph \<mapsto> a))
                 items Map.empty))"

text \<open>\<open>p in self.output_ports or p in self.training_output_ports\<close>\<close>

definition produced :: "('p, 't, 'v) TFModelModule \<Rightarrow> 'p \<Rightarrow> bool" where
  "produced self p = (p \<in> set (output_ports self) \<or> p \<in> set (training_output_ports self))"

text \<open>
  \<open>goal_tensors = [self.tensors[p] for p in goal_ports
                  if p in self.output_ports or p in self.training_output_ports]\<close>.
  Subscripting \<open>self.tensors\<close> raises \<open>TypeError\<close> while it is \<open>None\<close> and \<open>KeyError\<close>
  for a port with no tensor (a training output port of a module set up for inference).
\<close>

definition goal_tensors_of ::
  "('p, 't, 'v) TFModelModule \<Rightarrow> 'p list \<Rightarrow> py_error + 't list" where
  "goal_tensors_of self goal_ports =
     (let wanted = filter (produced self) goal_ports
      in if wanted = [] then Inr []
         else (case tensors self of
                 None \<Rightarrow> Inl TypeError
               | Some ts \<Rightarrow> map_err (getitem ts) wanted))"

text \<open>
  \<open>outputs = self.tf_session.run(goal_tensors, feed_dict)\<close>: one value for each fetched
  tensor, in the order of the fetches.
\<close>

definition session_run ::
  "('p, 't, 'v) TFModelModule \<Rightarrow> 't list \<Rightarrow> ('t \<rightharpoonup> 'v) \<Rightarrow> py_error + 'v list" where
  "session_run self fetches feed_dict = map_err (tf_session self feed_dict) fetches"

text \<open>
  \<open>for p in goal_ports:
      if p not in ret and p in batch:
          ret[p] = batch[p]\<close>
\<close>

definition pass_through :: "('p \<rightharpoonup> 'v) \<Rightarrow> 'p list \<Rightarrow> ('p \<rightharpoonup> 'v) \<Rightarrow> ('p \<rightharpoonup> 'v)" where
  "pass_through batch goal_ports ret =
     fold (\<lambda>p ret. if ret p = None \<and> batch p \<noteq> None then ret(p := batch p) else ret)
       goal_ports ret"

text \<open>
  \<open>goal_ports = goal_ports or self.output_ports\<close>: \<open>None\<close> and the empty list are both
  false in Python.
\<close>

definition goal_ports_or ::
  "('p, 't, 'v) TFModelModule \<Rightarrow> 'p list option \<Rightarrow> 'p list" where
  "goal_ports_or self goal_ports =
     (case goal_ports of
        None \<Rightarrow> output_ports self
      | Some gs \<Rightarrow> if gs = [] then output_ports self else gs)"

text \<open>
  \<open>TFModelModule.__call__(self, batch, goal_ports=None)\<close>.  The result is \<open>Inr ret\<close> when
  the call returns the dictionary \<open>ret\<close>, and \<open>Inl e\<close> when it raises.
\<close>

definition TFModelModule_call ::
  "('p, 't, 'v) TFModelModule \<Rightarrow> ('p \<rightharpoonup> 'v) \<Rightarrow> 'p list option \<Rightarrow> py_error + ('p \<rightharpoonup> 'v)" where
  "TFModelModule_call self batch goal_ports_arg =
     (let goal_ports = goal_ports_or self goal_ports_arg
      in case convert_to_feed_dict self batch of
           Inl e \<Rightarrow> Inl e
         | Inr feed_dict \<Rightarrow>
            (case goal_tensors_of self goal_ports of
               Inl e \<Rightarrow> Inl e
             | Inr goal_tensors \<Rightarrow>
                (case session_run self goal_tensors feed_dict of
                   Inl e \<Rightarrow> Inl e
                 | Inr outputs \<Rightarrow>
                     Inr (pass_through batch goal_ports
                            (dict_zip
                               (filter (produced self) goal_ports)
                               outputs)))))"

section \<open>jack/core/tensorflow.py: TFReader.train\<close>

text \<open>
  The loop of \<open>TFReader.train\<close> (the two nested \<open>for\<close> loops that end the method).  What
  precedes the loop builds the TensorFlow graph of the loss and of the optimiser's update
  and is not modelled; the loop sees it only through \<open>self.session.run([loss, min_op], ...)\<close>.

  \<open>batches\<close> is what the input module's \<open>batch_generator\<close> returned, created once before
  the loop and iterated anew by \<open>enumerate(batches)\<close> in every epoch.  The input module is
  not part of the modelled code, so both kinds of Python iterable are modelled: one that
  yields all its batches on every iteration (a list, or any restartable sequence), and a
  generator, which yields its batches on the first iteration and nothing afterwards.
\<close>

datatype 'b iterable = Restartable "'b list" | Generator "'b list"

fun iterate :: "'b iterable \<Rightarrow> 'b list \<times> 'b iterable" where
  "iterate (Restartable bs) = (bs, Restartable bs)"
| "iterate (Generator bs) = (bs, Generator [])"

text \<open>
  A training hook: its two callbacks act on the state \<open>'s\<close> of the run (the hooks' own
  fields, the session, the reader), and may raise.  \<open>'l\<close> is the type of the loss value.
\<close>

record ('l, 's) hook =
  hook_at_iteration_end :: "int \<Rightarrow> 'l \<Rightarrow> string \<Rightarrow> 's \<Rightarrow> py_error + 's"
  hook_at_epoch_end :: "int \<Rightarrow> 's \<Rightarrow> py_error + 's"

text \<open>
  \<open>for hook in hooks:
      hook.at_iteration_end(i, current_loss, set_name='train')\<close>
  An exception of a hook ends the run.
\<close>

fun iteration_end_hooks ::
  "('l, 's) hook list \<Rightarrow> int \<Rightarrow> 'l \<Rightarrow> 's \<Rightarrow> py_error + 's" where
  "iteration_end_hooks [] i current_loss s = Inr s"
| "iteration_end_hooks (hook # hooks) i current_loss s =
     (case hook_at_iteration_end hook i current_loss ''train'' s of
        Inl e \<Rightarrow> Inl e
      | Inr s' \<Rightarrow> iteration_end_hooks hooks i current_loss s')"

text \<open>
  \<open>for hook in hooks:
      hook.at_epoch_end(i)\<close>
\<close>

fun epoch_end_hooks :: "('l, 's) hook list \<Rightarrow> int \<Rightarrow> 's \<Rightarrow> py_error + 's" where
  "epoch_end_hooks [] i s = Inr s"
| "epoch_end_hooks (hook # hooks) i s =
     (case hook_at_epoch_end hook i s of
        Inl e \<Rightarrow> Inl e
      | Inr s' \<Rightarrow> epoch_end_hooks hooks i s')"

text \<open>
  \<open>for j, batch in enumerate(batches):
      feed_dict = self.model_module.convert_to_feed_dict(batch)
      current_loss, _ = self.session.run([loss, min_op], feed_dict=feed_dict)
      for hook in hooks: ...\<close>
  over the batches \<open>bs\<close> that one iteration of \<open>batches\<close> yields.  \<open>session_run_step\<close> stands
  for the first two lines of the body: it returns the loss of the batch and the state after
  the update, or raises.
\<close>

fun batch_loop ::
  "('b \<Rightarrow> 's \<Rightarrow> py_error + 'l \<times> 's) \<Rightarrow> ('l, 's) hook list \<Rightarrow> int \<Rightarrow> 'b list \<Rightarrow> 's
   \<Rightarrow> py_error + 's" where
  "batch_loop session_run_step hooks i [] s = Inr s"
| "batch_loop session_run_step hooks i (batch # bs) s =
     (case session_run_step batch s of
        Inl e \<Rightarrow> Inl e
      | Inr (current_loss, s') \<Rightarrow>
          (case iteration_end_hooks hooks i current_loss s' of
             Inl e \<Rightarrow> Inl e
           | Inr s'' \<Rightarrow> batch_loop session_run_step hooks i bs s''))"

text \<open>
  \<open>for i in range(1, max_epochs + 1):
      for j, batch in enumerate(batches): ...
      for hook in hooks:
          hook.at_epoch_end(i)\<close>
  over the epochs still to run.
\<close>

fun epoch_loop ::
  "('b \<Rightarrow> 's \<Rightarrow> py_error + 'l \<times> 's) \<Rightarrow> ('l, 's) hook list \<Rightarrow> 'b iterable \<Rightarrow> int list \<Rightarrow> 's
   \<Rightarrow> py_error + 's" where
  "epoch_loop session_run_step hooks batches [] s = Inr s"
| "epoch_loop session_run_step hooks batches (i # is) s =
     (case iterate batches of
        (bs, batches') \<Rightarrow>
          (case batch_loop session_run_step hooks i bs s of
             Inl e \<Rightarrow> Inl e
           | Inr s' \<Rightarrow>
               (case epoch_end_hooks hooks i s' of
                  Inl e \<Rightarrow> Inl e
                | Inr s'' \<Rightarrow> epoch_loop session_run_step hooks batches' is s'')))"

text \<open>The loop from the start: epochs \<open>1, ..., max_epochs\<close>.\<close>

definition train ::
  "('b \<Rightarrow> 's \<Rightarrow> py_error + 'l \<times> 's) \<Rightarrow> 'b iterable \<Rightarrow> int \<Rightarrow> ('l, 's) hook list \<Rightarrow> 's
   \<Rightarrow> py_error + 's" where
  "train session_run_step batches max_epochs hooks s =
     epoch_loop session_run_step hooks batches [1..max_epochs] s"

subsection \<open>A run as a sequence of calls, in the words of the specification\<close>

text \<open>
  These definitions follow the specification, not the code; the loop is compared with them
  below.  A run is a flat sequence of calls, made one after the other ("synchronously"):
  the session run on a batch, which yields the current loss; the iteration-end callback
  of the hook registered at position \<open>k\<close>, "with (epoch, loss)"; and the epoch-end callback
  of the hook registered at position \<open>k\<close>, "with (epoch)".
\<close>

datatype ('b, 'l, 's) call =
  RunBatch 'b
  | IterationEnd nat "('l, 's) hook" int
  | EpochEnd nat "('l, 's) hook" int

text \<open>
  Making the calls in order, each on the state the previous one left; the first exception
  ends the run.  \<open>current_loss\<close> is the loss of the latest session run.
\<close>

fun perform ::
  "('b \<Rightarrow> 's \<Rightarrow> py_error + 'l \<times> 's) \<Rightarrow> ('b, 'l, 's) call list \<Rightarrow> 'l \<Rightarrow> 's \<Rightarrow> py_error + 's"
  where
  "perform session_run_step [] current_loss s = Inr s"
| "perform session_run_step (RunBatch batch # calls) current_loss s =
     (case session_run_step batch s of
        Inl e \<Rightarrow> Inl e
      | Inr (loss, s') \<Rightarrow> perform session_run_step calls loss s')"
| "perform session_run_step (IterationEnd k hook i # calls) current_loss s =
     (case hook_at_iteration_end hook i current_loss ''train'' s of
        Inl e \<Rightarrow> Inl e
      | Inr s' \<Rightarrow> perform session_run_step calls current_loss s')"
| "perform session_run_step (EpochEnd k hook i # calls) current_loss s =
     (case hook_at_epoch_end hook i s of
        Inl e \<Rightarrow> Inl e
      | Inr s' \<Rightarrow> perform session_run_step calls current_loss s')"

text \<open>
  "Hooks execute in registration order at each callback point": the calls of one callback
  point, one for each hook, by increasing position.
\<close>

definition iteration_end_calls :: "('l, 's) hook list \<Rightarrow> int \<Rightarrow> ('b, 'l, 's) call list" where
  "iteration_end_calls hooks i = map (\<lambda>(k, hook). IterationEnd k hook i) (enumerate 0 hooks)"

definition epoch_end_calls :: "('l, 's) hook list \<Rightarrow> int \<Rightarrow> ('b, 'l, 's) call list" where
  "epoch_end_calls hooks i = map (\<lambda>(k, hook). EpochEnd k hook i) (enumerate 0 hooks)"

text \<open>
  How often a sequence of calls invokes \<open>at_iteration_end\<close> and \<open>at_epoch_end\<close> of the hook
  registered at position \<open>k\<close>.
\<close>

fun iteration_ends_of :: "nat \<Rightarrow> ('b, 'l, 's) call list \<Rightarrow> nat" where
  "iteration_ends_of k [] = 0"
| "iteration_ends_of k (RunBatch batch # calls) = iteration_ends_of k calls"
| "iteration_ends_of k (IterationEnd j hook i # calls) =
     (if j = k then Suc (iteration_ends_of k calls) else iteration_ends_of k calls)"
| "iteration_ends_of k (EpochEnd j hook i # calls) = iteration_ends_of k calls"

fun epoch_ends_of :: "nat \<Rightarrow> ('b, 'l, 's) call list \<Rightarrow> nat" where
  "epoch_ends_of k [] = 0"
| "epoch_ends_of k (RunBatch batch # calls) = epoch_ends_of k calls"
| "epoch_ends_of k (IterationEnd j hook i # calls) = epoch_ends_of k calls"
| "epoch_ends_of k (EpochEnd j hook i # calls) =
     (if j = k then Suc (epoch_ends_of k calls) else epoch_ends_of k calls)"

section \<open>jack/util/hooks.py: LossHook\<close>

text \<open>
  The fields of a \<open>LossHook\<close>: \<open>_iter_interval\<close> (\<open>None\<close> or an integer), the four
  dictionaries keyed by set name, and the history \<open>scores\<close> of \<open>TraceHook\<close>, which maps a
  metric and a set name to three lists (values, iterations, epochs).  Losses are modelled as
  real numbers.  The summary writer and the logger are output only and are left out.
\<close>

record LossHook =
  iter_interval :: "int option"
  acc_loss :: "string \<rightharpoonup> real"
  iter :: "string \<rightharpoonup> int"
  epoch_loss :: "string \<rightharpoonup> real"
  iter_epoch :: "string \<rightharpoonup> int"
  scores :: "string \<times> string \<rightharpoonup> real list \<times> int list \<times> int list"

text \<open>
  \<open>__init__\<close>:
  \<open>self._acc_loss = {'train': 0.0}; self._iter = {'train': 0};
  self._epoch_loss = {'train': 0.0}; self._iter_epoch = {'train': 0}\<close>
\<close>

definition LossHook_init :: "int option \<Rightarrow> LossHook" where
  "LossHook_init interval =
     \<lparr>iter_interval = interval,
      acc_loss = [''train'' \<mapsto> 0],
      iter = [''train'' \<mapsto> 0],
      epoch_loss = [''train'' \<mapsto> 0],
      iter_epoch = [''train'' \<mapsto> 0],
      scores = Map.empty\<rparr>"

text \<open>
  \<open>TraceHook.add_to_history(score_dict, iter_value, epoch, set_name)\<close>: for every metric
  of \<open>score_dict\<close>, create the three lists if they are missing and append to each.
\<close>

definition add_to_history ::
  "LossHook \<Rightarrow> (string \<times> real) list \<Rightarrow> int \<Rightarrow> int \<Rightarrow> string \<Rightarrow> LossHook" where
  "add_to_history self score_dict iter_value epoch set_name =
     fold (\<lambda>(metric, score) self.
             case (case scores self (metric, set_name) of
                     None \<Rightarrow> ([], [], [])
                   | Some h \<Rightarrow> h) of
               (values, iters, epochs) \<Rightarrow>
                 self\<lparr>scores := (scores self)((metric, set_name) \<mapsto>
                   (values @ [score], iters @ [iter_value], epochs @ [epoch]))\<rparr>)
       score_dict self"

text \<open>
  \<open>LossHook.at_iteration_end(epoch, loss, set_name)\<close>, statement by statement.  The result is
  the returned value or the exception, together with the hook as the call leaves it: the
  counters are incremented before \<open>self._iter[set_name] % self._iter_interval\<close> can raise.
  \<open>self1\<close>: after the \<open>if set_name not in self._acc_loss\<close> block;
  \<open>self2\<close>: after \<open>self._iter_epoch[set_name] += 1\<close>;
  \<open>self3\<close>: after \<open>self._epoch_loss[set_name] += 1\<close>;
  \<open>self4\<close>: after \<open>self._iter[set_name] += 1\<close>;
  \<open>self5\<close>: after \<open>self._acc_loss[set_name] += loss\<close>;
  \<open>self6\<close>: after the \<open>if not self._iter[set_name] == 0 and ... % self._iter_interval == 0\<close>
  block, which records the averaged loss in the history and resets \<open>_acc_loss[set_name]\<close>.
\<close>

definition LossHook_at_iteration_end ::
  "LossHook \<Rightarrow> int \<Rightarrow> real \<Rightarrow> string \<Rightarrow> (py_error + real) \<times> LossHook" where
  "LossHook_at_iteration_end self epoch loss set_name =
    (case iter_interval self of
       None \<Rightarrow> (Inr loss, self)
     | Some interval \<Rightarrow>
      (let self1 = (if acc_loss self set_name = None
                    then self\<lparr>acc_loss := (acc_loss self)(set_name \<mapsto> 0),
                              iter := (iter self)(set_name \<mapsto> 0),
                              epoch_loss := (epoch_loss self)(set_name \<mapsto> 0),
                              iter_epoch := (iter_epoch self)(set_name \<mapsto> 0)\<rparr>
                    else self)
       in (case iter_epoch self1 set_name of
             None \<Rightarrow> (Inl KeyError, self1)
           | Some ie \<Rightarrow>
      (let self2 = self1\<lparr>iter_epoch := (iter_epoch self1)(set_name \<mapsto> ie + 1)\<rparr>
       in (case epoch_loss self2 set_name of
             None \<Rightarrow> (Inl KeyError, self2)
           | Some el \<Rightarrow>
      (let self3 = self2\<lparr>epoch_loss := (epoch_loss self2)(set_name \<mapsto> el + 1)\<rparr>
       in (case iter self3 set_name of
             None \<Rightarrow> (Inl KeyError, self3)
           | Some it \<Rightarrow>
      (let self4 = self3\<lparr>iter := (iter self3)(set_name \<mapsto> it + 1)\<rparr>
       in (case acc_loss self4 set_name of
             None \<Rightarrow> (Inl KeyError, self4)
           | Some al \<Rightarrow>
      (let self5 = self4\<lparr>acc_loss := (acc_loss self4)(set_name \<mapsto> al + loss)\<rparr>
       in if it + 1 \<noteq> 0 \<and> interval = 0 then (Inl ZeroDivisionError, self5)
          else
      (let self6 = (if it + 1 \<noteq> 0 \<and> (it + 1) mod interval = 0
                    then (add_to_history self5 [(''loss'', (al + loss) / real_of_int interval)]
                            (it + 1) epoch set_name)
                         \<lparr>acc_loss := (acc_loss self5)(set_name \<mapsto> 0)\<rparr>
                    else self5)
       in (case iter self6 set_name of
             None \<Rightarrow> (Inl KeyError, self6)
           | Some it' \<Rightarrow>
               if it' = 0 then (Inr 0, self6)
               else (case acc_loss self6 set_name of
                       None \<Rightarrow> (Inl KeyError, self6)
                     | Some al' \<Rightarrow> (Inr (al' / real_of_int it'), self6))))))))))))))"

text \<open>
  \<open>LossHook.at_epoch_end(epoch, set_name)\<close>.  The block under
  \<open>if self._iter_interval is None\<close> subscripts \<open>self._acc_loss\<close> and then
  \<open>self._iter_interval\<close>, which is \<open>None\<close> there, so it always raises; it is the only place
  that would reset \<open>_epoch_loss\<close> and \<open>_iter_epoch\<close>.  Otherwise
  \<open>ret = (0.0 if self._iter_epoch[set_name] == 0
         else self._epoch_loss[set_name] / self._iter_epoch[set_name])\<close>.
\<close>

definition LossHook_at_epoch_end ::
  "LossHook \<Rightarrow> int \<Rightarrow> string \<Rightarrow> (py_error + real) \<times> LossHook" where
  "LossHook_at_epoch_end self epoch set_name =
     (case iter_interval self of
        None \<Rightarrow>
          (case acc_loss self set_name of
             None \<Rightarrow> (Inl KeyError, self)
           | Some al \<Rightarrow> (Inl TypeError, self))
      | Some interval \<Rightarrow>
          (case iter_epoch self set_name of
             None \<Rightarrow> (Inl KeyError, self)
           | Some ie \<Rightarrow>
               if ie = 0 then (Inr 0, self)
               else (case epoch_loss self set_name of
                       None \<Rightarrow> (Inl KeyError, self)
                     | Some el \<Rightarrow> (Inr (el / real_of_int ie), self))))"

text \<open>
  A caller's use of a hook: a sequence of callback invocations, each on the hook as the
  previous one left it (whether it returned or raised), and the number of
  \<open>at_iteration_end\<close> invocations for a set name in such a sequence.
\<close>

datatype LossHook_call = CallIterationEnd int real string | CallEpochEnd int string

fun LossHook_calls :: "LossHook \<Rightarrow> LossHook_call list \<Rightarrow> LossHook" where
  "LossHook_calls self [] = self"
| "LossHook_calls self (CallIterationEnd epoch loss set_name # cs) =
     LossHook_calls (snd (LossHook_at_iteration_end self epoch loss set_name)) cs"
| "LossHook_calls self (CallEpochEnd epoch set_name # cs) =
     LossHook_calls (snd (LossHook_at_epoch_end self epoch set_name)) cs"

fun iterations_of :: "string \<Rightarrow> LossHook_call list \<Rightarrow> nat" where
  "iterations_of s [] = 0"
| "iterations_of s (CallIterationEnd epoch loss set_name # cs) =
     (if set_name = s then Suc (iterations_of s cs) else iterations_of s cs)"
| "iterations_of s (CallEpochEnd epoch set_name # cs) = iterations_of s cs"

section \<open>jack/util/hooks.py: XQAEvalHook.apply_metrics\<close>













section \<open>jack/core/shared_resources.py: SharedResources\<close>

text \<open>
  The values a configuration holds (hyper-parameters, names): scalars and lists of them.
\<close>

datatype pyval = PyNone | PyBool bool | PyInt int | PyStr string | PyList "pyval list"

text \<open>
  Modelled from the spec: the class \<open>Vocab\<close> of \<open>jack.util.vocab\<close>, which is not among the
  source files.  The specification describes a vocabulary as a mapping between tokens and
  ids; a vocabulary is the map from its tokens to their ids.
\<close>

type_synonym Vocab = "string \<rightharpoonup> int"

text \<open>
  The file system, as far as \<open>store\<close> and \<open>load\<close> use it: a map from paths to what is there;
  a path that maps to nothing does not exist (\<open>os.path.exists(path)\<close> is false).  At a path
  there is a directory, or what \<open>pickle.dump(remaining, f, ...)\<close> wrote, the dictionary of
  the object's attributes other than \<open>vocab\<close> (its \<open>config\<close> entry, and its other entries),
  or a stored vocabulary.  \<open>pickle.load\<close> returns the dictionary that \<open>pickle.dump\<close> wrote.
  The current directory is the empty path and always exists.
\<close>

datatype artifact =
  PickleFile "string \<rightharpoonup> pyval" "string \<rightharpoonup> pyval" | VocabFile Vocab | Directory

type_synonym filesystem = "string \<rightharpoonup> artifact"

text \<open>
  \<open>os.path.dirname(p)\<close> (posixpath):
  \<open>i = p.rfind('/') + 1
  head = p[:i]
  if head and head != '/' * len(head):
      head = head.rstrip('/')
  return head\<close>
\<close>

definition dirname :: "string \<Rightarrow> string" where
  "dirname p =
     (let head = rev (dropWhile (\<lambda>c. c \<noteq> CHR ''/'') (rev p))
      in if head \<noteq> [] \<and> filter (\<lambda>c. c \<noteq> CHR ''/'') head \<noteq> []
         then rev (dropWhile (\<lambda>c. c = CHR ''/'') (rev head))
         else head)"

text \<open>
  \<open>open(path, 'wb')\<close>, which creates or truncates the file: it raises \<open>FileNotFoundError\<close>
  for the empty path and for a path whose directory does not exist, \<open>IsADirectoryError\<close> for
  a directory, and \<open>NotADirectoryError\<close> when the directory part names a file.  Permissions
  and device errors are not modelled.
\<close>

definition open_wb :: "string \<Rightarrow> filesystem \<Rightarrow> py_error + unit" where
  "open_wb path fs =
     (if path = [] then Inl FileNotFoundError
      else if fs path = Some Directory \<or> last path = CHR ''/'' then Inl IsADirectoryError
      else if dirname path = [] then Inr ()
      else (case fs (dirname path) of
              None \<Rightarrow> Inl FileNotFoundError
            | Some Directory \<Rightarrow> Inr ()
            | Some (PickleFile c a) \<Rightarrow> Inl NotADirectoryError
            | Some (VocabFile v) \<Rightarrow> Inl NotADirectoryError))"

text \<open>
  A \<open>SharedResources\<close> object is its \<open>__dict__\<close>: the attributes \<open>config\<close> and \<open>vocab\<close> that
  \<open>__init__\<close> sets (\<open>vocab\<close> is \<open>None\<close> unless given), and any other attribute set on the
  object later (\<open>attrs\<close>).
\<close>

record SharedResources =
  config :: "string \<rightharpoonup> pyval"
  vocab :: "Vocab option"
  attrs :: "string \<rightharpoonup> pyval"

text \<open>\<open>self.config = config or dict(); self.vocab = vocab\<close>\<close>

definition SharedResources_init ::
  "Vocab option \<Rightarrow> (string \<rightharpoonup> pyval) option \<Rightarrow> SharedResources" where
  "SharedResources_init vocab_arg config_arg =
     \<lparr>config = (case config_arg of None \<Rightarrow> Map.empty | Some c \<Rightarrow> c),
      vocab = vocab_arg,
      attrs = Map.empty\<rparr>"

text \<open>
  Modelled from the spec: \<open>Vocab.store(path)\<close> of \<open>jack.util.vocab\<close>, which is not among the
  source files.  The specification has the vocabulary "serialized separately", as an
  artifact of its own at the derived path; writing it opens that path as \<open>store\<close> opens its
  own.
\<close>

definition Vocab_store :: "Vocab \<Rightarrow> string \<Rightarrow> filesystem \<Rightarrow> py_error + filesystem" where
  "Vocab_store v path fs =
     (case open_wb path fs of
        Inl e \<Rightarrow> Inl e
      | Inr u \<Rightarrow> Inr (fs(path \<mapsto> VocabFile v)))"

text \<open>
  Modelled from the spec: \<open>Vocab.load(path)\<close> of \<open>jack.util.vocab\<close>, which is not among the
  source files.  The specification: \<open>load\<close> "reconstructs" the vocabulary, "vocabulary load
  is mandatory", and "loading vocabulary from a nonexistent path is fatal".  An artifact
  that is not a stored vocabulary does not load either.
\<close>

definition Vocab_load :: "string \<Rightarrow> filesystem \<Rightarrow> py_error + Vocab" where
  "Vocab_load path fs =
     (case fs path of
        None \<Rightarrow> Inl FileNotFoundError
      | Some (VocabFile v) \<Rightarrow> Inr v
      | Some (PickleFile c a) \<Rightarrow> Inl UnpicklingError
      | Some Directory \<Rightarrow> Inl IsADirectoryError)"

text \<open>
  \<open>SharedResources.store(path)\<close>:
  \<open>with open(path, 'wb') as f:
      remaining = {k: self.__dict__[k] for k in self.__dict__ if k != "vocab"}
      pickle.dump(remaining, f, pickle.HIGHEST_PROTOCOL)
  self.vocab.store(path + "_vocab")\<close>
  The result is the outcome of the call and the file system it leaves.  When \<open>open\<close> raises,
  nothing is written.  With \<open>vocab\<close> still \<open>None\<close>, \<open>self.vocab.store\<close> raises
  \<open>AttributeError\<close>, after the first artifact was written.
\<close>

definition SharedResources_store ::
  "SharedResources \<Rightarrow> string \<Rightarrow> filesystem \<Rightarrow> (py_error + unit) \<times> filesystem" where
  "SharedResources_store self path fs =
     (case open_wb path fs of
        Inl e \<Rightarrow> (Inl e, fs)
      | Inr u \<Rightarrow>
          (let fs1 = fs(path \<mapsto> PickleFile (config self) (attrs self))
           in (case vocab self of
                 None \<Rightarrow> (Inl AttributeError, fs1)
               | Some v \<Rightarrow>
                   (case Vocab_store v (path @ ''_vocab'') fs1 of
                      Inl e \<Rightarrow> (Inl e, fs1)
                    | Inr fs2 \<Rightarrow> (Inr (), fs2)))))"

text \<open>
  \<open>SharedResources.load(path)\<close>:
  \<open>if os.path.exists(path):
      with open(path, 'rb') as f:
          self.__dict__.update(pickle.load(f))
  self.vocab = Vocab()
  self.vocab.load(path + "_vocab")\<close>
  The result is the outcome of the call and the object it leaves.  \<open>Vocab()\<close> is the empty
  vocabulary.  A directory at \<open>path\<close> exists, and \<open>open(path, 'rb')\<close> raises on it.
\<close>

definition SharedResources_load ::
  "SharedResources \<Rightarrow> string \<Rightarrow> filesystem \<Rightarrow> (py_error + unit) \<times> SharedResources" where
  "SharedResources_load self path fs =
     (case (case fs path of
              None \<Rightarrow> Inr self
            | Some (PickleFile c a) \<Rightarrow> Inr (self\<lparr>config := c, attrs := attrs self ++ a\<rparr>)
            | Some (VocabFile v) \<Rightarrow> Inl UnpicklingError
            | Some Directory \<Rightarrow> Inl IsADirectoryError) of
        Inl e \<Rightarrow> (Inl e, self)
      | Inr self1 \<Rightarrow>
          (case Vocab_load (path @ ''_vocab'') fs of
             Inl e \<Rightarrow> (Inl e, self1\<lparr>vocab := Some Map.empty\<rparr>)
           | Inr v \<Rightarrow> (Inr (), self1\<lparr>vocab := Some v\<rparr>)))"

section \<open>jack/util/hooks.py: KBPEvalHook.at_test_time\<close>

text \<open>
  \<open>scipy.stats.rankdata(a, method="min")\<close>, a function of the SciPy library: the rank of an
  element is one more than the number of elements strictly smaller than it, so that tied
  elements all receive the minimum of the ranks they span.  The code calls it on the
  negated scores, \<open>rankdata(- q_cand_scores[q], method="min")\<close>.  Scores are modelled as real
  numbers.
\<close>

definition rankdata_min :: "real list \<Rightarrow> nat list" where
  "rankdata_min a = map (\<lambda>x. 1 + length (filter (\<lambda>y. y < x) a)) a"

text \<open>
  The three dictionaries keyed by the question id keep their insertion order:
  \<open>d[k] = v\<close> replaces the value of a key that is present and appends a new key.
\<close>

fun dict_set :: "(int \<times> 'v) list \<Rightarrow> int \<Rightarrow> 'v \<Rightarrow> (int \<times> 'v) list" where
  "dict_set [] k v = [(k, v)]"
| "dict_set ((k', v') # d) k v =
     (if k' = k then (k, v) # d else (k', v') # dict_set d k v)"

text \<open>
  A set of answers (\<open>q_answers[q]\<close>) is a list without repetition; this is \<open>s.add(a)\<close>.
\<close>

definition set_add :: "int list \<Rightarrow> int \<Rightarrow> int list" where
  "set_add s a = (if a \<in> set s then s else s @ [a])"

text \<open>
  The arrays of one batch that the loop reads at index \<open>j\<close>, as one row: \<open>questions[j]\<close>,
  \<open>correct_answers[j]\<close>, \<open>logits[j]\<close> and \<open>candidate_ids[j]\<close> (the arrays of a batch share
  their leading dimension).  A batch is the list of its rows; the input of \<open>at_test_time\<close> is
  the list of \<open>predictions\<close> that the model module returned for the batches.
\<close>

record kbp_row =
  questions_row :: "int list"
  correct_answers_row :: int
  logits_row :: "real list"
  candidate_ids_row :: "int list"

record kbp_dicts =
  q_cand_scores :: "(int \<times> real list) list"
  q_cand_ids :: "(int \<times> int list) list"
  q_answers :: "(int \<times> int list) list"

text \<open>
  \<open>for j in range(len_np_or_list(questions)):
      q = questions[j][0]
      q_cand_scores[q] = logits[j]
      q_cand_ids[q] = candidate_ids[j]
      if q not in q_answers:
          q_answers[q] = set()
      q_answers[q].add(correct_answers[j])\<close>
  \<open>questions[j][0]\<close> raises \<open>IndexError\<close> on an empty row.
\<close>

fun collect_rows :: "kbp_row list \<Rightarrow> kbp_dicts \<Rightarrow> py_error + kbp_dicts" where
  "collect_rows [] d = Inr d"
| "collect_rows (r # rs) d =
     (case questions_row r of
        [] \<Rightarrow> Inl IndexError
      | q # _ \<Rightarrow>
          collect_rows rs
            \<lparr>q_cand_scores = dict_set (q_cand_scores d) q (logits_row r),
             q_cand_ids = dict_set (q_cand_ids d) q (candidate_ids_row r),
             q_answers = dict_set (q_answers d) q
               (set_add (case map_of (q_answers d) q of None \<Rightarrow> [] | Some s \<Rightarrow> s)
                  (correct_answers_row r))\<rparr>)"

text \<open>\<open>for i, batch in enumerate(self._batches): ...\<close>\<close>

fun collect_batches :: "kbp_row list list \<Rightarrow> kbp_dicts \<Rightarrow> py_error + kbp_dicts" where
  "collect_batches [] d = Inr d"
| "collect_batches (batch # batches) d =
     (case collect_rows batch d of
        Inl e \<Rightarrow> Inl e
      | Inr d' \<Rightarrow> collect_batches batches d')"

text \<open>
  \<open>for q in q_cand_ids:
      for k, c in enumerate(q_cand_ids[q]):
          ...
          qa_scores.append(q_cand_scores[q][k])\<close>
  The list \<open>qa_scores\<close> (and the ranks computed from it) is not used for the reported
  values, but \<open>q_cand_scores[q][k]\<close> raises \<open>IndexError\<close> when a question has fewer scores
  than candidates.
\<close>

fun qa_scores_of :: "kbp_dicts \<Rightarrow> (int \<times> int list) list \<Rightarrow> py_error + real list" where
  "qa_scores_of d [] = Inr []"
| "qa_scores_of d ((q, ids) # rest) =
     (case map_of (q_cand_scores d) q of
        None \<Rightarrow> Inl KeyError
      | Some cand_scores \<Rightarrow>
          if length cand_scores < length ids then Inl IndexError
          else (case qa_scores_of d rest of
                  Inl e \<Rightarrow> Inl e
                | Inr qa_scores \<Rightarrow> Inr (take (length ids) cand_scores @ qa_scores)))"

text \<open>
  \<open>ans_ranks = []
  for a in q_answers[q]:
      for c, cand in enumerate(q_cand_ids[q]):
          if a == cand and cand_ranks[c] <= 100:
              ans_ranks.append(cand_ranks[c])\<close>
  Every candidate has a rank here, since \<open>qa_scores_of\<close> has passed: pairing the candidates
  with the ranks loses no candidate.
\<close>

definition ans_ranks_of :: "int list \<Rightarrow> int list \<Rightarrow> nat list \<Rightarrow> nat list" where
  "ans_ranks_of answers cand_ids cand_ranks =
     concat (map (\<lambda>a. map snd (filter (\<lambda>(cand, r). a = cand \<and> r \<le> 100)
                                  (zip cand_ids cand_ranks)))
               answers)"

text \<open>
  \<open>for r in sorted(ans_ranks):
      p = answers / r
      av_p = av_p + p
      answers += 1\<close>
  over the ranks still to visit.  A rank is at least 1.
\<close>

fun precision_loop :: "nat list \<Rightarrow> nat \<Rightarrow> real \<Rightarrow> real" where
  "precision_loop [] answers av_p = av_p"
| "precision_loop (r # rs) answers av_p =
     precision_loop rs (answers + 1) (av_p + real answers / real r)"

text \<open>The four accumulators of the loop over the questions.\<close>

record map_sums =
  mean_ap :: real
  wmap :: real
  qd :: nat
  md :: nat

text \<open>
  The vocabulary of the reader, \<open>self.reader.shared_resources.vocab\<close>, is \<open>reader_vocab\<close>:
  \<open>None\<close> when the shared resources have no vocabulary.  Its method \<open>get_sym\<close> is code of
  \<open>jack.util.vocab\<close>, which is not among the source files; it is the parameter \<open>get_sym\<close>,
  which returns the symbol of an id or raises.

  The body of \<open>for q in q_answers\<close> for one question:
  \<open>cand_ranks = rankdata(- q_cand_scores[q], method="min")
  ...
  av_p = 0
  answers = 1
  for r in sorted(ans_ranks): ...
  if len(ans_ranks) > 0:
      wmap = wmap + av_p
      md = md + len(ans_ranks)
      av_p = av_p / len(ans_ranks)
      res = '...' % (self.reader.shared_resources.vocab.get_sym(q), "Average Precision",
                     av_p, len(q_answers[q]))
      logger.info(res)
      qd = qd + 1
  mean_ap = mean_ap + av_p\<close>
  For a question with a found gold answer the log line asks the vocabulary for the symbol
  of \<open>q\<close>: \<open>AttributeError\<close> without a vocabulary, and whatever \<open>get_sym\<close> raises.
\<close>

definition question_step ::
  "(Vocab \<Rightarrow> int \<Rightarrow> py_error + string) \<Rightarrow> Vocab option \<Rightarrow> int \<Rightarrow> real list \<Rightarrow> int list
   \<Rightarrow> int list \<Rightarrow> map_sums \<Rightarrow> py_error + map_sums" where
  "question_step get_sym reader_vocab q cand_scores cand_ids answers acc =
     (let cand_ranks = rankdata_min (map uminus cand_scores);
          ans_ranks = ans_ranks_of answers cand_ids cand_ranks;
          av_p = precision_loop (sort ans_ranks) 1 0
      in if length ans_ranks > 0
         then (case reader_vocab of
                 None \<Rightarrow> Inl AttributeError
               | Some v \<Rightarrow>
                   (case get_sym v q of
                      Inl e \<Rightarrow> Inl e
                    | Inr symbol \<Rightarrow>
                        Inr \<lparr>mean_ap = mean_ap acc + av_p / real (length ans_ranks),
                             wmap = wmap acc + av_p,
                             qd = qd acc + 1,
                             md = md acc + length ans_ranks\<rparr>))
         else Inr (acc\<lparr>mean_ap := mean_ap acc + av_p\<rparr>))"

text \<open>\<open>for q in q_answers: ...\<close>, over the items of \<open>q_answers\<close> still to visit.\<close>

fun question_loop ::
  "(Vocab \<Rightarrow> int \<Rightarrow> py_error + string) \<Rightarrow> Vocab option \<Rightarrow> kbp_dicts
   \<Rightarrow> (int \<times> int list) list \<Rightarrow> map_sums \<Rightarrow> py_error + map_sums" where
  "question_loop get_sym reader_vocab d [] acc = Inr acc"
| "question_loop get_sym reader_vocab d ((q, answers) # rest) acc =
     (case map_of (q_cand_scores d) q of
        None \<Rightarrow> Inl KeyError
      | Some cand_scores \<Rightarrow>
          (case map_of (q_cand_ids d) q of
             None \<Rightarrow> Inl KeyError
           | Some cand_ids \<Rightarrow>
               (case question_step get_sym reader_vocab q cand_scores cand_ids answers acc of
                  Inl e \<Rightarrow> Inl e
                | Inr acc' \<Rightarrow> question_loop get_sym reader_vocab d rest acc')))"

text \<open>
  \<open>KBPEvalHook.at_test_time\<close>, given the \<open>predictions\<close> of the batches.  The method logs
  its two results; the model returns them:
  \<open>mean_ap = mean_ap / q_answers_len if q_answers_len else 0\<close> and
  \<open>wmap = wmap / md if md else 0\<close>.  The hook is one constructed without a summary writer
  and without a file to write the metrics to (the defaults), so that reporting the results
  writes nothing.
\<close>

definition KBPEvalHook_at_test_time ::
  "(Vocab \<Rightarrow> int \<Rightarrow> py_error + string) \<Rightarrow> Vocab option \<Rightarrow> kbp_row list list
   \<Rightarrow> py_error + real \<times> real" where
  "KBPEvalHook_at_test_time get_sym reader_vocab batches =
     (case collect_batches batches \<lparr>q_cand_scores = [], q_cand_ids = [], q_answers = []\<rparr> of
        Inl e \<Rightarrow> Inl e
      | Inr d \<Rightarrow>
          (case qa_scores_of d (q_cand_ids d) of
             Inl e \<Rightarrow> Inl e
           | Inr qa_scores \<Rightarrow>
               (case question_loop get_sym reader_vocab d (q_answers d)
                       \<lparr>mean_ap = 0, wmap = 0, qd = 0, md = 0\<rparr> of
                  Inl e \<Rightarrow> Inl e
                | Inr acc \<Rightarrow>
                    Inr (if length (q_answers d) \<noteq> 0
                         then mean_ap acc / real (length (q_answers d)) else 0,
                         if md acc \<noteq> 0 then wmap acc / real (md acc) else 0))))"

subsection \<open>The ranking metric in the words of the specification\<close>

text \<open>
  These definitions follow the specification, not the code, and read the predictions
  directly; the code is compared with them below.

  The question of a row is the first entry of its question array.  The questions of the
  predictions are the questions of their rows.  The candidates and the scores of a question
  are those of its latest row, and its gold answers are the correct answers of all its rows.
\<close>

definition question_of :: "kbp_row \<Rightarrow> int" where
  "question_of r = (case questions_row r of [] \<Rightarrow> 0 | q # tokens \<Rightarrow> q)"

definition spec_cand_scores :: "kbp_row list \<Rightarrow> int \<Rightarrow> real list" where
  "spec_cand_scores rows q =
     (case filter (\<lambda>r. question_of r = q) (rev rows) of
        [] \<Rightarrow> []
      | r # earlier \<Rightarrow> logits_row r)"

definition spec_cand_ids :: "kbp_row list \<Rightarrow> int \<Rightarrow> int list" where
  "spec_cand_ids rows q =
     (case filter (\<lambda>r. question_of r = q) (rev rows) of
        [] \<Rightarrow> []
      | r # earlier \<Rightarrow> candidate_ids_row r)"

definition spec_gold :: "kbp_row list \<Rightarrow> int \<Rightarrow> int set" where
  "spec_gold rows q = correct_answers_row ` set (filter (\<lambda>r. question_of r = q) rows)"

text \<open>
  "Rank all candidates by descending score (tied scores receive the lowest/best shared
  rank)": the rank of a score is one more than the number of candidates with a strictly
  higher score.
\<close>

definition spec_rank :: "real list \<Rightarrow> real \<Rightarrow> nat" where
  "spec_rank cand_scores x = 1 + length (filter (\<lambda>y. x < y) cand_scores)"

text \<open>
  "For each gold answer present among the top-100 ranked candidates": the ranks, in
  increasing order, of the candidates that are gold answers and have rank at most 100.
\<close>

definition spec_found_ranks :: "real list \<Rightarrow> int list \<Rightarrow> int set \<Rightarrow> nat list" where
  "spec_found_ranks cand_scores cand_ids gold =
     sort (map snd (filter (\<lambda>(cand, r). cand \<in> gold \<and> r \<le> 100)
                      (zip cand_ids (map (spec_rank cand_scores) cand_scores))))"

text \<open>
  "Precision-at-rank = (rank among gold answers found so far) / (candidate's rank); average
  precision = mean of these precision values over found gold answers (0 if none found in
  top-100)".
\<close>

definition spec_average_precision :: "nat list \<Rightarrow> real" where
  "spec_average_precision found =
     (if found = [] then 0
      else sum_list (map (\<lambda>(k, r). real k / real r) (enumerate 1 found)) / real (length found))"

definition spec_question_average_precision :: "kbp_row list \<Rightarrow> int \<Rightarrow> real" where
  "spec_question_average_precision rows q =
     spec_average_precision
       (spec_found_ranks (spec_cand_scores rows q) (spec_cand_ids rows q) (spec_gold rows q))"

text \<open>
  "Mean-average-precision = mean of per-question average precision over all questions"
  (every question of the predictions has a gold answer).
\<close>

definition spec_mean_average_precision :: "kbp_row list \<Rightarrow> real" where
  "spec_mean_average_precision rows =
     (if rows = [] then 0
      else sum (spec_question_average_precision rows) (question_of ` set rows)
           / real (card (question_of ` set rows)))"

section \<open>Properties of TensorPort\<close>

text \<open>
  C8 (as claimed) fails in its second half: two distinct port objects carrying the same name
  are not equal, since equality over ports is object identity.
\<close>

theorem TensorPort_same_name_not_equal:
  "name \<lparr>ident = 0, dtype = ''int32'', shape = [None], name = ''question'',
          doc_string = None, shape_string = None\<rparr>
   = name \<lparr>ident = 1, dtype = ''int32'', shape = [None], name = ''question'',
          doc_string = None, shape_string = None\<rparr>
   \<and> \<not> TensorPort_eq
        \<lparr>ident = 0, dtype = ''int32'', shape = [None], name = ''question'',
          doc_string = None, shape_string = None\<rparr>
        \<lparr>ident = 1, dtype = ''int32'', shape = [None], name = ''question'',
          doc_string = None, shape_string = None\<rparr>"
  by (simp add: TensorPort_eq_def)

text \<open>
  C8 (amended).  The ordering \<open>>\<close> over ports is determined by the name alone:
  \<open>p > q\<close> holds iff \<open>p.name > q.name\<close>.  It is therefore irreflexive and transitive, it
  orders any two ports whose names differ, and it never orders two ports of the same name.
  Equality is the identity of the object: a port is equal to itself, and two ports are equal
  exactly when they are the same object.
\<close>

theorem TensorPort_gt_by_name:
  "(TensorPort_gt p q \<longleftrightarrow> name p > name q)
   \<and> \<not> TensorPort_gt p p
   \<and> (TensorPort_gt p q \<and> TensorPort_gt q r \<longrightarrow> TensorPort_gt p r)
   \<and> (name p \<noteq> name q \<longrightarrow> TensorPort_gt p q \<or> TensorPort_gt q p)
   \<and> (name p = name q \<longrightarrow> \<not> TensorPort_gt p q \<and> \<not> TensorPort_gt q p)
   \<and> TensorPort_eq p p
   \<and> (TensorPort_eq p q \<longleftrightarrow> ident p = ident q)"
  unfolding TensorPort_gt_def TensorPort_eq_def by auto

theorem TensorPort_gt_by_name_witness:
  "TensorPort_gt
     \<lparr>ident = 2, dtype = ''int32'', shape = [None, None], name = ''support'',
       doc_string = None, shape_string = None\<rparr>
     \<lparr>ident = 0, dtype = ''int32'', shape = [None, None], name = ''question'',
       doc_string = None, shape_string = None\<rparr>
   \<and> TensorPort_gt
     \<lparr>ident = 0, dtype = ''int32'', shape = [None, None], name = ''question'',
       doc_string = None, shape_string = None\<rparr>
     \<lparr>ident = 3, dtype = ''float32'', shape = [None], name = ''loss'',
       doc_string = None, shape_string = None\<rparr>
   \<and> TensorPort_gt
     \<lparr>ident = 2, dtype = ''int32'', shape = [None, None], name = ''support'',
       doc_string = None, shape_string = None\<rparr>
     \<lparr>ident = 3, dtype = ''float32'', shape = [None], name = ''loss'',
       doc_string = None, shape_string = None\<rparr>
   \<and> \<not> TensorPort_gt
     \<lparr>ident = 0, dtype = ''int32'', shape = [None, None], name = ''question'',
       doc_string = None, shape_string = None\<rparr>
     \<lparr>ident = 1, dtype = ''int32'', shape = [None, None], name = ''question'',
       doc_string = None, shape_string = None\<rparr>
   \<and> \<not> TensorPort_eq
     \<lparr>ident = 0, dtype = ''int32'', shape = [None, None], name = ''question'',
       doc_string = None, shape_string = None\<rparr>
     \<lparr>ident = 1, dtype = ''int32'', shape = [None, None], name = ''question'',
       doc_string = None, shape_string = None\<rparr>"
  using
    TensorPort_gt_by_name [of
      "\<lparr>ident = 2, dtype = ''int32'', shape = [None, None], name = ''support'',
       doc_string = None, shape_string = None\<rparr>"
      "\<lparr>ident = 0, dtype = ''int32'', shape = [None, None], name = ''question'',
       doc_string = None, shape_string = None\<rparr>"
      "\<lparr>ident = 3, dtype = ''float32'', shape = [None], name = ''loss'',
       doc_string = None, shape_string = None\<rparr>"]
    TensorPort_gt_by_name [of
      "\<lparr>ident = 0, dtype = ''int32'', shape = [None, None], name = ''question'',
       doc_string = None, shape_string = None\<rparr>"
      "\<lparr>ident = 1, dtype = ''int32'', shape = [None, None], name = ''question'',
       doc_string = None, shape_string = None\<rparr>"
      "\<lparr>ident = 0, dtype = ''int32'', shape = [None, None], name = ''question'',
       doc_string = None, shape_string = None\<rparr>"]
    TensorPort_gt_by_name [of
      "\<lparr>ident = 0, dtype = ''int32'', shape = [None, None], name = ''question'',
       doc_string = None, shape_string = None\<rparr>"
      "\<lparr>ident = 3, dtype = ''float32'', shape = [None], name = ''loss'',
       doc_string = None, shape_string = None\<rparr>"
      "\<lparr>ident = 2, dtype = ''int32'', shape = [None, None], name = ''support'',
       doc_string = None, shape_string = None\<rparr>"]
  by simp

section \<open>Properties of TFModelModule.__call__\<close>

subsection \<open>What a returning call returns\<close>

lemma map_err_Inr:
  "map_err f xs = Inr ys \<Longrightarrow> ys = map (\<lambda>x. projr (f x)) xs \<and> (\<forall>x \<in> set xs. \<not> isl (f x))"
  by (induction xs arbitrary: ys) (auto split: sum.splits)

lemma map_err_ok:
  "\<forall>x \<in> set xs. \<not> isl (f x) \<Longrightarrow> map_err f xs = Inr (map (\<lambda>x. projr (f x)) xs)"
  by (induction xs) (auto split: sum.splits)

lemma fold_zip_map:
  "fold (\<lambda>(k, v) d. d(k \<mapsto> v)) (zip ks (map g ks)) d0
   = (\<lambda>k. if k \<in> set ks then Some (g k) else d0 k)"
  by (induction ks arbitrary: d0) (auto simp: fun_eq_iff)

lemma dict_zip_map: "dict_zip ks (map g ks) = (\<lambda>k. if k \<in> set ks then Some (g k) else None)"
  by (simp add: dict_zip_def fold_zip_map)

lemma pass_through_eq:
  "pass_through batch gs ret
   = (\<lambda>p. if ret p \<noteq> None then ret p else if p \<in> set gs then batch p else None)"
  unfolding pass_through_def
  by (induction gs arbitrary: ret) (auto simp: fun_eq_iff)

text \<open>
  When \<open>__call__\<close> returns \<open>ret\<close>: a goal port that the module produces holds the value the
  session computed for its tensor, any other goal port holds what the batch holds for it
  (nothing, when the batch does not have it), and no other port is in \<open>ret\<close>.
\<close>

lemma TFModelModule_call_Inr:
  assumes "TFModelModule_call self batch ga = Inr ret"
  shows "\<exists>feed. convert_to_feed_dict self batch = Inr feed
           \<and> (\<forall>p. ret p =
                 (if p \<in> set (goal_ports_or self ga) \<and> produced self p
                  then Some (projr (tf_session self feed (projr (getitem (the (tensors self)) p))))
                  else if p \<in> set (goal_ports_or self ga) then batch p else None))
           \<and> (\<forall>p \<in> set (goal_ports_or self ga). produced self p \<longrightarrow>
                 tensors self \<noteq> None
                 \<and> \<not> isl (getitem (the (tensors self)) p)
                 \<and> \<not> isl (tf_session self feed (projr (getitem (the (tensors self)) p))))"
proof -
  let ?gs = "goal_ports_or self ga"
  let ?w = "filter (produced self) ?gs"
  from assms obtain feed gts outs where
    feed: "convert_to_feed_dict self batch = Inr feed" and
    gts: "goal_tensors_of self ?gs = Inr gts" and
    outs: "session_run self gts feed = Inr outs" and
    ret: "ret = pass_through batch ?gs (dict_zip ?w outs)"
    by (auto simp: TFModelModule_call_def Let_def split: sum.splits)
  have gts_eq: "gts = map (\<lambda>p. projr (getitem (the (tensors self)) p)) ?w"
    and gts_ok: "\<forall>p \<in> set ?w. tensors self \<noteq> None \<and> \<not> isl (getitem (the (tensors self)) p)"
    using gts map_err_Inr [of "getitem (the (tensors self))" ?w gts]
    by (auto simp: goal_tensors_of_def Let_def filter_empty_conv split: if_splits option.splits)
  have outs_eq: "outs = map (\<lambda>t. projr (tf_session self feed t)) gts"
    and outs_ok: "\<forall>t \<in> set gts. \<not> isl (tf_session self feed t)"
    using outs map_err_Inr [of "tf_session self feed" gts outs]
    by (auto simp: session_run_def)
  have outs_map: "outs = map (\<lambda>p. projr (tf_session self feed (projr (getitem (the (tensors self)) p)))) ?w"
    using outs_eq gts_eq by simp
  have "\<forall>p. ret p =
          (if p \<in> set ?gs \<and> produced self p
           then Some (projr (tf_session self feed (projr (getitem (the (tensors self)) p))))
           else if p \<in> set ?gs then batch p else None)"
    unfolding ret outs_map dict_zip_map pass_through_eq by auto
  moreover have "\<forall>p \<in> set ?gs. produced self p \<longrightarrow>
                 tensors self \<noteq> None
                 \<and> \<not> isl (getitem (the (tensors self)) p)
                 \<and> \<not> isl (tf_session self feed (projr (getitem (the (tensors self)) p)))"
    using gts_ok outs_ok gts_eq by auto
  ultimately show ?thesis using feed by blast
qed

lemma dict_zip_notin: "k \<notin> set ks \<Longrightarrow> dict_zip ks vs k = None"
proof -
  have "k \<notin> fst ` set kvs \<Longrightarrow> fold (\<lambda>(k, v) d. d(k \<mapsto> v)) kvs d0 k = d0 k"
    for kvs :: "('a \<times> 'b) list" and d0
    by (induction kvs arbitrary: d0) auto
  moreover have "k \<notin> set ks \<Longrightarrow> k \<notin> fst ` set (zip ks vs)"
    by (auto dest: set_zip_leftD)
  ultimately show "k \<notin> set ks \<Longrightarrow> dict_zip ks vs k = None"
    by (simp add: dict_zip_def)
qed

lemma produced_value:
  assumes "TFModelModule_call self batch ga = Inr ret"
    and "p \<in> set (goal_ports_or self ga)" and "produced self p"
  shows "\<exists>feed ts t v. convert_to_feed_dict self batch = Inr feed \<and> tensors self = Some ts
           \<and> ts p = Some t \<and> tf_session self feed t = Inr v \<and> ret p = Some v"
proof -
  from TFModelModule_call_Inr [OF assms(1)] obtain feed where
    feed: "convert_to_feed_dict self batch = Inr feed" and
    r: "ret p = Some (projr (tf_session self feed (projr (getitem (the (tensors self)) p))))" and
    ok: "tensors self \<noteq> None" "\<not> isl (getitem (the (tensors self)) p)"
        "\<not> isl (tf_session self feed (projr (getitem (the (tensors self)) p)))"
    using assms(2,3) by auto
  from ok(1) obtain ts where ts: "tensors self = Some ts" by auto
  from ok(2) ts obtain t where t: "ts p = Some t"
    by (auto simp: getitem_def split: option.splits)
  from ok(3) ts t obtain v where v: "tf_session self feed t = Inr v"
    by (cases "tf_session self feed t") (auto simp: getitem_def)
  from r ts t v have "ret p = Some v" by (simp add: getitem_def)
  with feed ts t v show ?thesis by blast
qed

lemmas call_defs =
  TFModelModule_call_def goal_ports_or_def convert_to_feed_dict_def goal_tensors_of_def
  session_run_def pass_through_def dict_zip_def produced_def getitem_def

subsection \<open>A goal port that nothing provides\<close>

text \<open>
  C1 (as claimed) fails: a goal port that is neither an output port, nor a training output
  port, nor in the batch raises nothing.  Here the module produces \<open>logits\<close> from the fed
  \<open>question\<close>; the goal port \<open>bogus\<close> is unknown to the module and to the batch, and the
  call returns the mapping with \<open>logits\<close> alone.
\<close>

theorem TFModelModule_call_silently_omits:
  "TFModelModule_call
     \<lparr>output_ports = [''logits''], training_output_ports = [''loss''],
          tensors = Some [''question'' \<mapsto> 0, ''logits'' \<mapsto> 1],
          placeholders = Some [(''question'', 0::nat)],
          tf_session = (\<lambda>feed_dict t. case feed_dict 0 of
                                         None \<Rightarrow> Inl SessionError
                                       | Some a \<Rightarrow> Inr (a + int t))\<rparr>
     [''question'' \<mapsto> 7, ''answer2question'' \<mapsto> 3]
     (Some [''logits'', ''bogus''])
   = Inr [''logits'' \<mapsto> 8]"
  by (simp add: call_defs)

text \<open>
  C1 (amended).  A goal port \<open>p\<close> that is neither an output port, nor a training output
  port, nor in the batch is left out without a signal: a mapping that \<open>__call__\<close> returns
  has no entry for \<open>p\<close>, and the call behaves (result or exception) exactly as the call
  with \<open>p\<close> removed from the goal ports, as long as another goal port remains.
\<close>

theorem TFModelModule_call_drops_unreachable:
  assumes "p \<in> set goal_ports"
    and "p \<notin> set (output_ports self)" and "p \<notin> set (training_output_ports self)"
    and "batch p = None"
  shows "(TFModelModule_call self batch (Some goal_ports) = Inr ret \<longrightarrow> ret p = None)
       \<and> (filter (\<lambda>q. q \<noteq> p) goal_ports \<noteq> [] \<longrightarrow>
            TFModelModule_call self batch (Some goal_ports)
            = TFModelModule_call self batch (Some (filter (\<lambda>q. q \<noteq> p) goal_ports)))"
proof (intro conjI impI)
  from assms(1) have gs: "goal_ports_or self (Some goal_ports) = goal_ports"
    by (auto simp: goal_ports_or_def)
  from assms(2,3) have np: "\<not> produced self p" by (simp add: produced_def)
  {
    assume "TFModelModule_call self batch (Some goal_ports) = Inr ret"
    from TFModelModule_call_Inr [OF this] gs np assms(1,4) show "ret p = None" by auto
  }
  {
    let ?gs' = "filter (\<lambda>q. q \<noteq> p) goal_ports"
    assume ne: "?gs' \<noteq> []"
    then have gs': "goal_ports_or self (Some ?gs') = ?gs'"
      by (simp add: goal_ports_or_def)
    have w: "filter (produced self) ?gs' = filter (produced self) goal_ports"
      using np by (induction goal_ports) auto
    have pt: "pass_through batch ?gs' (dict_zip (filter (produced self) goal_ports) outs)
              = pass_through batch goal_ports (dict_zip (filter (produced self) goal_ports) outs)"
      for outs
      unfolding pass_through_eq using assms(4) np
      by (auto simp: fun_eq_iff dict_zip_notin)
    show "TFModelModule_call self batch (Some goal_ports)
          = TFModelModule_call self batch (Some ?gs')"
      unfolding TFModelModule_call_def Let_def gs gs' goal_tensors_of_def w pt ..
  }
qed

theorem TFModelModule_call_drops_unreachable_witness:
  "TFModelModule_call
     \<lparr>output_ports = [''logits''], training_output_ports = [''loss''],
          tensors = Some [''question'' \<mapsto> 0, ''logits'' \<mapsto> 1],
          placeholders = Some [(''question'', 0::nat)],
          tf_session = (\<lambda>feed_dict t. case feed_dict 0 of
                                         None \<Rightarrow> Inl SessionError
                                       | Some a \<Rightarrow> Inr (a + int t))\<rparr>
     [''question'' \<mapsto> 7, ''answer2question'' \<mapsto> 3]
     (Some [''bogus'', ''answer2question'', ''logits''])
   = Inr [''logits'' \<mapsto> 8, ''answer2question'' \<mapsto> 3]
   \<and> [''logits'' \<mapsto> 8, ''answer2question'' \<mapsto> (3::int)] ''bogus'' = None
   \<and> TFModelModule_call
     \<lparr>output_ports = [''logits''], training_output_ports = [''loss''],
          tensors = Some [''question'' \<mapsto> 0, ''logits'' \<mapsto> 1],
          placeholders = Some [(''question'', 0::nat)],
          tf_session = (\<lambda>feed_dict t. case feed_dict 0 of
                                         None \<Rightarrow> Inl SessionError
                                       | Some a \<Rightarrow> Inr (a + int t))\<rparr>
     [''question'' \<mapsto> 7, ''answer2question'' \<mapsto> 3]
     (Some [''bogus'', ''answer2question'', ''logits''])
   = TFModelModule_call
     \<lparr>output_ports = [''logits''], training_output_ports = [''loss''],
          tensors = Some [''question'' \<mapsto> 0, ''logits'' \<mapsto> 1],
          placeholders = Some [(''question'', 0::nat)],
          tf_session = (\<lambda>feed_dict t. case feed_dict 0 of
                                         None \<Rightarrow> Inl SessionError
                                       | Some a \<Rightarrow> Inr (a + int t))\<rparr>
     [''question'' \<mapsto> 7, ''answer2question'' \<mapsto> 3]
     (Some [''answer2question'', ''logits''])"
  using TFModelModule_call_drops_unreachable [of "''bogus''"
      "[''bogus'', ''answer2question'', ''logits'']"
      "\<lparr>output_ports = [''logits''], training_output_ports = [''loss''],
          tensors = Some [''question'' \<mapsto> 0, ''logits'' \<mapsto> 1],
          placeholders = Some [(''question'', 0::nat)],
          tf_session = (\<lambda>feed_dict t. case feed_dict 0 of
                                         None \<Rightarrow> Inl SessionError
                                       | Some a \<Rightarrow> Inr (a + int t))\<rparr>"
      "[''question'' \<mapsto> 7, ''answer2question'' \<mapsto> 3]"
      "[''logits'' \<mapsto> 8, ''answer2question'' \<mapsto> 3]"]
  by (simp add: call_defs)

subsection \<open>A goal port that the batch provides\<close>

text \<open>
  C4.  For a goal port \<open>p\<close> that is in the batch and is neither an output port nor a
  training output port, the mapping that \<open>__call__\<close> returns holds at \<open>p\<close> the value the
  batch holds at \<open>p\<close>.
\<close>

theorem TFModelModule_call_pass_through:
  assumes "TFModelModule_call self batch (Some goal_ports) = Inr ret"
    and "p \<in> set goal_ports"
    and "p \<notin> set (output_ports self)" and "p \<notin> set (training_output_ports self)"
    and "batch p = Some a"
  shows "ret p = Some a"
proof -
  from assms(2) have gs: "goal_ports_or self (Some goal_ports) = goal_ports"
    by (auto simp: goal_ports_or_def)
  from assms(3,4) have np: "\<not> produced self p" by (simp add: produced_def)
  from TFModelModule_call_Inr [OF assms(1)] gs np assms(2,5) show ?thesis by auto
qed

theorem TFModelModule_call_pass_through_witness:
  "TFModelModule_call
     \<lparr>output_ports = [''logits''], training_output_ports = [''loss''],
          tensors = Some [''question'' \<mapsto> 0, ''logits'' \<mapsto> 1],
          placeholders = Some [(''question'', 0::nat)],
          tf_session = (\<lambda>feed_dict t. case feed_dict 0 of
                                         None \<Rightarrow> Inl SessionError
                                       | Some a \<Rightarrow> Inr (a + int t))\<rparr>
     [''question'' \<mapsto> 7, ''answer2question'' \<mapsto> 3]
     (Some [''logits'', ''answer2question''])
   = Inr [''logits'' \<mapsto> 8, ''answer2question'' \<mapsto> 3]
   \<and> [''question'' \<mapsto> 7, ''answer2question'' \<mapsto> 3] ''answer2question'' = Some 3
   \<and> [''logits'' \<mapsto> 8, ''answer2question'' \<mapsto> (3::int)] ''answer2question'' = Some 3"
proof -
  have c: "TFModelModule_call
     \<lparr>output_ports = [''logits''], training_output_ports = [''loss''],
          tensors = Some [''question'' \<mapsto> 0, ''logits'' \<mapsto> 1],
          placeholders = Some [(''question'', 0::nat)],
          tf_session = (\<lambda>feed_dict t. case feed_dict 0 of
                                         None \<Rightarrow> Inl SessionError
                                       | Some a \<Rightarrow> Inr (a + int t))\<rparr>
     [''question'' \<mapsto> 7, ''answer2question'' \<mapsto> 3]
     (Some [''logits'', ''answer2question''])
   = Inr [''logits'' \<mapsto> 8, ''answer2question'' \<mapsto> 3]"
    by (simp add: call_defs)
  from TFModelModule_call_pass_through [OF c, of "''answer2question''" 3] c
  show ?thesis by simp
qed

subsection \<open>No goal ports\<close>

text \<open>
  C9.  \<open>__call__\<close> with the empty list of goal ports is \<open>__call__\<close> with no goal ports
  (\<open>None\<close>), and a mapping it returns has exactly the module's output ports as keys, each
  with the value the session computed for the port's tensor under the feed dictionary of the
  batch.
\<close>

theorem TFModelModule_call_empty_goal_ports:
  "TFModelModule_call self batch (Some []) = TFModelModule_call self batch None
   \<and> (TFModelModule_call self batch (Some []) = Inr ret \<longrightarrow>
        dom ret = set (output_ports self)
        \<and> (\<forall>p \<in> set (output_ports self).
              \<exists>feed ts t v. convert_to_feed_dict self batch = Inr feed \<and> tensors self = Some ts
                \<and> ts p = Some t \<and> tf_session self feed t = Inr v \<and> ret p = Some v))"
proof (intro conjI impI)
  have gs: "goal_ports_or self (Some []) = output_ports self"
    "goal_ports_or self None = output_ports self"
    by (simp_all add: goal_ports_or_def)
  show "TFModelModule_call self batch (Some []) = TFModelModule_call self batch None"
    by (simp add: TFModelModule_call_def gs)
  assume r: "TFModelModule_call self batch (Some []) = Inr ret"
  have pr: "produced self p" if "p \<in> set (output_ports self)" for p
    using that by (simp add: produced_def)
  from TFModelModule_call_Inr [OF r] gs(1) pr show "dom ret = set (output_ports self)"
    by (auto simp: dom_def split: if_splits)
  show "\<forall>p \<in> set (output_ports self).
              \<exists>feed ts t v. convert_to_feed_dict self batch = Inr feed \<and> tensors self = Some ts
                \<and> ts p = Some t \<and> tf_session self feed t = Inr v \<and> ret p = Some v"
    using produced_value [OF r] gs(1) pr by simp
qed

theorem TFModelModule_call_empty_goal_ports_witness:
  "TFModelModule_call
     \<lparr>output_ports = [''logits''], training_output_ports = [''loss''],
          tensors = Some [''question'' \<mapsto> 0, ''logits'' \<mapsto> 1],
          placeholders = Some [(''question'', 0::nat)],
          tf_session = (\<lambda>feed_dict t. case feed_dict 0 of
                                         None \<Rightarrow> Inl SessionError
                                       | Some a \<Rightarrow> Inr (a + int t))\<rparr>
     [''question'' \<mapsto> 7, ''answer2question'' \<mapsto> 3]
     (Some [])
   = Inr [''logits'' \<mapsto> 8]
   \<and> TFModelModule_call
     \<lparr>output_ports = [''logits''], training_output_ports = [''loss''],
          tensors = Some [''question'' \<mapsto> 0, ''logits'' \<mapsto> 1],
          placeholders = Some [(''question'', 0::nat)],
          tf_session = (\<lambda>feed_dict t. case feed_dict 0 of
                                         None \<Rightarrow> Inl SessionError
                                       | Some a \<Rightarrow> Inr (a + int t))\<rparr>
     [''question'' \<mapsto> 7, ''answer2question'' \<mapsto> 3]
     None
   = Inr [''logits'' \<mapsto> 8]
   \<and> dom [''logits'' \<mapsto> (8::int)] = {''logits''}"
proof -
  have c: "TFModelModule_call
     \<lparr>output_ports = [''logits''], training_output_ports = [''loss''],
          tensors = Some [''question'' \<mapsto> 0, ''logits'' \<mapsto> 1],
          placeholders = Some [(''question'', 0::nat)],
          tf_session = (\<lambda>feed_dict t. case feed_dict 0 of
                                         None \<Rightarrow> Inl SessionError
                                       | Some a \<Rightarrow> Inr (a + int t))\<rparr>
     [''question'' \<mapsto> 7, ''answer2question'' \<mapsto> 3]
     (Some [])
   = Inr [''logits'' \<mapsto> 8]"
    by (simp add: call_defs)
  from TFModelModule_call_empty_goal_ports [of
     "\<lparr>output_ports = [''logits''], training_output_ports = [''loss''],
          tensors = Some [''question'' \<mapsto> 0, ''logits'' \<mapsto> 1],
          placeholders = Some [(''question'', 0::nat)],
          tf_session = (\<lambda>feed_dict t. case feed_dict 0 of
                                         None \<Rightarrow> Inl SessionError
                                       | Some a \<Rightarrow> Inr (a + int t))\<rparr>"
     "[''question'' \<mapsto> 7, ''answer2question'' \<mapsto> 3]"
     "[''logits'' \<mapsto> 8]"] c
  show ?thesis by simp
qed

section \<open>Properties of TFReader.train\<close>

subsection \<open>The loops make the calls of a callback point in registration order\<close>

lemma perform_iteration_end_from:
  "perform step (map (\<lambda>(k, hook). IterationEnd k hook i) (enumerate n hooks) @ calls) l s
   = (case iteration_end_hooks hooks i l s of
        Inl e \<Rightarrow> Inl e
      | Inr s' \<Rightarrow> perform step calls l s')"
  by (induction hooks arbitrary: n s) (auto split: sum.splits)

lemma perform_epoch_end_from:
  "perform step (map (\<lambda>(k, hook). EpochEnd k hook i) (enumerate n hooks) @ calls) l s
   = (case epoch_end_hooks hooks i s of
        Inl e \<Rightarrow> Inl e
      | Inr s' \<Rightarrow> perform step calls l s')"
  by (induction hooks arbitrary: n s) (auto split: sum.splits)

lemma perform_iteration_end_calls:
  "perform step (iteration_end_calls hooks i @ calls) l s
   = (case iteration_end_hooks hooks i l s of
        Inl e \<Rightarrow> Inl e
      | Inr s' \<Rightarrow> perform step calls l s')"
  unfolding iteration_end_calls_def by (rule perform_iteration_end_from)

lemma perform_epoch_end_calls:
  "perform step (epoch_end_calls hooks i @ calls) l s
   = (case epoch_end_hooks hooks i s of
        Inl e \<Rightarrow> Inl e
      | Inr s' \<Rightarrow> perform step calls l s')"
  unfolding epoch_end_calls_def by (rule perform_epoch_end_from)

lemma perform_epoch_end_calls_last:
  "perform step (epoch_end_calls hooks i) l s = epoch_end_hooks hooks i s"
  using perform_epoch_end_calls [of step hooks i "[]" l s]
  by (simp split: sum.splits)

subsection \<open>Counting the calls of a hook\<close>

lemma iteration_ends_of_append:
  "iteration_ends_of k (xs @ ys) = iteration_ends_of k xs + iteration_ends_of k ys"
  by (induction k xs rule: iteration_ends_of.induct) auto

lemma epoch_ends_of_append:
  "epoch_ends_of k (xs @ ys) = epoch_ends_of k xs + epoch_ends_of k ys"
  by (induction k xs rule: epoch_ends_of.induct) auto

lemma iteration_ends_of_iteration_from:
  "iteration_ends_of k (map (\<lambda>(k, hook). IterationEnd k hook i) (enumerate n hooks))
   = (if n \<le> k \<and> k < n + length hooks then 1 else 0)"
  by (induction hooks arbitrary: n) auto

lemma iteration_ends_of_epoch_from:
  "iteration_ends_of k (map (\<lambda>(k, hook). EpochEnd k hook i) (enumerate n hooks)) = 0"
  by (induction hooks arbitrary: n) auto

lemma epoch_ends_of_epoch_from:
  "epoch_ends_of k (map (\<lambda>(k, hook). EpochEnd k hook i) (enumerate n hooks))
   = (if n \<le> k \<and> k < n + length hooks then 1 else 0)"
  by (induction hooks arbitrary: n) auto

lemma epoch_ends_of_iteration_from:
  "epoch_ends_of k (map (\<lambda>(k, hook). IterationEnd k hook i) (enumerate n hooks)) = 0"
  by (induction hooks arbitrary: n) auto

lemma count_calls:
  "iteration_ends_of k (iteration_end_calls hooks i) = (if k < length hooks then 1 else 0)"
  "iteration_ends_of k (epoch_end_calls hooks i) = 0"
  "epoch_ends_of k (epoch_end_calls hooks i) = (if k < length hooks then 1 else 0)"
  "epoch_ends_of k (iteration_end_calls hooks i) = 0"
  by (simp_all add: iteration_end_calls_def epoch_end_calls_def
      iteration_ends_of_iteration_from iteration_ends_of_epoch_from
      epoch_ends_of_epoch_from epoch_ends_of_iteration_from)

subsection \<open>A run returns when no callback and no session run raises\<close>

lemma iteration_end_hooks_returns:
  assumes "\<forall>h \<in> set hs. \<forall>i l n s. \<not> isl (hook_at_iteration_end h i l n s)"
  shows "\<exists>s'. iteration_end_hooks hs i l s = Inr s'"
  using assms
proof (induction hs arbitrary: s)
  case Nil
  then show ?case by simp
next
  case (Cons h hs)
  from Cons.prems have "\<not> isl (hook_at_iteration_end h i l ''train'' s)" by simp
  then obtain s1 where "hook_at_iteration_end h i l ''train'' s = Inr s1"
    by (cases "hook_at_iteration_end h i l ''train'' s") auto
  moreover from Cons have "\<exists>s'. iteration_end_hooks hs i l s1 = Inr s'"
    by simp
  ultimately show ?case by simp
qed

lemma epoch_end_hooks_returns:
  assumes "\<forall>h \<in> set hs. \<forall>i s. \<not> isl (hook_at_epoch_end h i s)"
  shows "\<exists>s'. epoch_end_hooks hs i s = Inr s'"
  using assms
proof (induction hs arbitrary: s)
  case Nil
  then show ?case by simp
next
  case (Cons h hs)
  from Cons.prems have "\<not> isl (hook_at_epoch_end h i s)" by simp
  then obtain s1 where "hook_at_epoch_end h i s = Inr s1"
    by (cases "hook_at_epoch_end h i s") auto
  moreover from Cons have "\<exists>s'. epoch_end_hooks hs i s1 = Inr s'"
    by simp
  ultimately show ?case by simp
qed

lemma batch_loop_returns:
  assumes "\<forall>b s. \<not> isl (step b s)"
    and "\<forall>h \<in> set hooks. \<forall>i l n s. \<not> isl (hook_at_iteration_end h i l n s)"
  shows "\<exists>s'. batch_loop step hooks i bs s = Inr s'"
proof (induction bs arbitrary: s)
  case Nil
  then show ?case by simp
next
  case (Cons b bs)
  from assms(1) have "\<not> isl (step b s)" by simp
  then obtain l s1 where "step b s = Inr (l, s1)"
    by (cases "step b s") auto
  moreover from iteration_end_hooks_returns [OF assms(2)] obtain s2 where
    "iteration_end_hooks hooks i l s1 = Inr s2" by blast
  moreover from Cons.IH obtain s' where "batch_loop step hooks i bs s2 = Inr s'" by blast
  ultimately show ?case by simp
qed

lemma epoch_loop_returns:
  assumes "\<forall>b s. \<not> isl (step b s)"
    and "\<forall>h \<in> set hooks. \<forall>i l n s. \<not> isl (hook_at_iteration_end h i l n s)"
    and "\<forall>h \<in> set hooks. \<forall>i s. \<not> isl (hook_at_epoch_end h i s)"
  shows "\<exists>s'. epoch_loop step hooks batches epochs s = Inr s'"
proof (induction epochs arbitrary: batches s)
  case Nil
  then show ?case by simp
next
  case (Cons i epochs)
  obtain bs batches' where it: "iterate batches = (bs, batches')" by (cases "iterate batches")
  from batch_loop_returns [OF assms(1,2)] obtain s1 where
    "batch_loop step hooks i bs s = Inr s1" by blast
  moreover from epoch_end_hooks_returns [OF assms(3)] obtain s2 where
    "epoch_end_hooks hooks i s1 = Inr s2" by blast
  moreover from Cons.IH obtain s' where
    "epoch_loop step hooks batches' epochs s2 = Inr s'" by blast
  ultimately show ?case by (simp add: it)
qed

lemma train_returns:
  assumes "\<forall>b s. \<not> isl (step b s)"
    and "\<forall>h \<in> set hooks. \<forall>i l n s. \<not> isl (hook_at_iteration_end h i l n s)"
    and "\<forall>h \<in> set hooks. \<forall>i s. \<not> isl (hook_at_epoch_end h i s)"
  shows "\<exists>s'. train step batches max_epochs hooks s = Inr s'"
  using epoch_loop_returns [OF assms] by (simp add: train_def)

subsection \<open>Two epochs of two batches\<close>

text \<open>
  C7.  A run of \<open>train\<close> with \<open>max_epochs = 2\<close> over a restartable sequence of two batches
  (four instances at batch size 2), from any state and with any registered hooks, is
  exactly this sequence of calls, each made on the state the previous one left, with the
  same result or the same exception: the session run on the first batch, then
  \<open>at_iteration_end(1, loss)\<close> of every hook in registration order; the same for the second
  batch; \<open>at_epoch_end(1)\<close> of every hook in registration order; then the same three groups
  for epoch 2.  In this sequence every registered hook has \<open>at_iteration_end\<close> invoked
  exactly 4 times and \<open>at_epoch_end\<close> exactly 2 times.  (The loss before the first session
  run, \<open>l0\<close>, is never read.  By \<open>train_returns\<close> the run returns whenever no hook and no
  session run raises.)
\<close>

theorem train_two_epochs_two_batches:
  "train step (Restartable [b1, b2]) 2 hooks s
   = perform step
       (RunBatch b1 # iteration_end_calls hooks 1
        @ RunBatch b2 # iteration_end_calls hooks 1
        @ epoch_end_calls hooks 1
        @ RunBatch b1 # iteration_end_calls hooks 2
        @ RunBatch b2 # iteration_end_calls hooks 2
        @ epoch_end_calls hooks 2) l0 s
   \<and> (\<forall>k < length hooks.
         iteration_ends_of k
           (RunBatch b1 # iteration_end_calls hooks 1
            @ RunBatch b2 # iteration_end_calls hooks 1
            @ epoch_end_calls hooks 1
            @ RunBatch b1 # iteration_end_calls hooks 2
            @ RunBatch b2 # iteration_end_calls hooks 2
            @ epoch_end_calls hooks 2 :: ('b, 'l, 's) call list) = 4
         \<and> epoch_ends_of k
           (RunBatch b1 # iteration_end_calls hooks 1
            @ RunBatch b2 # iteration_end_calls hooks 1
            @ epoch_end_calls hooks 1
            @ RunBatch b1 # iteration_end_calls hooks 2
            @ RunBatch b2 # iteration_end_calls hooks 2
            @ epoch_end_calls hooks 2 :: ('b, 'l, 's) call list) = 2)
   \<and> iteration_end_calls [h0, h1] i
       = [IterationEnd 0 h0 i, IterationEnd 1 h1 i :: ('b, 'l, 's) call]
   \<and> epoch_end_calls [h0, h1] i = [EpochEnd 0 h0 i, EpochEnd 1 h1 i :: ('b, 'l, 's) call]"
proof (intro conjI)
  have e: "[1..2] = [1, 2::int]" by (simp add: upto.simps)
  show "train step (Restartable [b1, b2]) 2 hooks s
   = perform step
       (RunBatch b1 # iteration_end_calls hooks 1
        @ RunBatch b2 # iteration_end_calls hooks 1
        @ epoch_end_calls hooks 1
        @ RunBatch b1 # iteration_end_calls hooks 2
        @ RunBatch b2 # iteration_end_calls hooks 2
        @ epoch_end_calls hooks 2) l0 s"
    by (simp add: train_def e perform_iteration_end_calls perform_epoch_end_calls
        perform_epoch_end_calls_last split: sum.splits prod.splits)
  show "\<forall>k < length hooks.
         iteration_ends_of k
           (RunBatch b1 # iteration_end_calls hooks 1
            @ RunBatch b2 # iteration_end_calls hooks 1
            @ epoch_end_calls hooks 1
            @ RunBatch b1 # iteration_end_calls hooks 2
            @ RunBatch b2 # iteration_end_calls hooks 2
            @ epoch_end_calls hooks 2 :: ('b, 'l, 's) call list) = 4
         \<and> epoch_ends_of k
           (RunBatch b1 # iteration_end_calls hooks 1
            @ RunBatch b2 # iteration_end_calls hooks 1
            @ epoch_end_calls hooks 1
            @ RunBatch b1 # iteration_end_calls hooks 2
            @ RunBatch b2 # iteration_end_calls hooks 2
            @ epoch_end_calls hooks 2 :: ('b, 'l, 's) call list) = 2"
    by (simp add: iteration_ends_of_append epoch_ends_of_append count_calls)
  show "iteration_end_calls [h0, h1] i
       = [IterationEnd 0 h0 i, IterationEnd 1 h1 i :: ('b, 'l, 's) call]"
    by (simp add: iteration_end_calls_def)
  show "epoch_end_calls [h0, h1] i = [EpochEnd 0 h0 i, EpochEnd 1 h1 i :: ('b, 'l, 's) call]"
    by (simp add: epoch_end_calls_def)
qed

text \<open>
  Two hooks that each append a line to a shared log: the log of the run shows the order.
  The session run returns the batch as its loss.
\<close>

theorem train_two_epochs_two_batches_witness:
  "train (\<lambda>batch s. Inr (batch, s)) (Restartable [10, 20 :: int]) 2
     [\<lparr>hook_at_iteration_end = (\<lambda>i current_loss set_name s. Inr (s @ [(''A.iteration'', i, current_loss)])),
        hook_at_epoch_end = (\<lambda>i s. Inr (s @ [(''A.epoch'', i, 0)]))\<rparr>,
      \<lparr>hook_at_iteration_end = (\<lambda>i current_loss set_name s. Inr (s @ [(''B.iteration'', i, current_loss)])),
        hook_at_epoch_end = (\<lambda>i s. Inr (s @ [(''B.epoch'', i, 0)]))\<rparr>]
     []
   = Inr [(''A.iteration'', 1, 10), (''B.iteration'', 1, 10),
           (''A.iteration'', 1, 20), (''B.iteration'', 1, 20),
           (''A.epoch'', 1, 0), (''B.epoch'', 1, 0),
           (''A.iteration'', 2, 10), (''B.iteration'', 2, 10),
           (''A.iteration'', 2, 20), (''B.iteration'', 2, 20),
           (''A.epoch'', 2, 0), (''B.epoch'', 2, 0)]
   \<and> iteration_ends_of 1
       (RunBatch 10 # iteration_end_calls
          [\<lparr>hook_at_iteration_end = (\<lambda>i current_loss set_name s. Inr (s @ [(''A.iteration'', i, current_loss)])),
        hook_at_epoch_end = (\<lambda>i s. Inr (s @ [(''A.epoch'', i, 0)]))\<rparr>,
           \<lparr>hook_at_iteration_end = (\<lambda>i current_loss set_name s. Inr (s @ [(''B.iteration'', i, current_loss)])),
        hook_at_epoch_end = (\<lambda>i s. Inr (s @ [(''B.epoch'', i, 0)]))\<rparr>] 1
        @ RunBatch 20 # iteration_end_calls
          [\<lparr>hook_at_iteration_end = (\<lambda>i current_loss set_name s. Inr (s @ [(''A.iteration'', i, current_loss)])),
        hook_at_epoch_end = (\<lambda>i s. Inr (s @ [(''A.epoch'', i, 0)]))\<rparr>,
           \<lparr>hook_at_iteration_end = (\<lambda>i current_loss set_name s. Inr (s @ [(''B.iteration'', i, current_loss)])),
        hook_at_epoch_end = (\<lambda>i s. Inr (s @ [(''B.epoch'', i, 0)]))\<rparr>] 1
        @ epoch_end_calls
          [\<lparr>hook_at_iteration_end = (\<lambda>i current_loss set_name s. Inr (s @ [(''A.iteration'', i, current_loss)])),
        hook_at_epoch_end = (\<lambda>i s. Inr (s @ [(''A.epoch'', i, 0)]))\<rparr>,
           \<lparr>hook_at_iteration_end = (\<lambda>i current_loss set_name s. Inr (s @ [(''B.iteration'', i, current_loss)])),
        hook_at_epoch_end = (\<lambda>i s. Inr (s @ [(''B.epoch'', i, 0)]))\<rparr>] 1
        @ RunBatch 10 # iteration_end_calls
          [\<lparr>hook_at_iteration_end = (\<lambda>i current_loss set_name s. Inr (s @ [(''A.iteration'', i, current_loss)])),
        hook_at_epoch_end = (\<lambda>i s. Inr (s @ [(''A.epoch'', i, 0)]))\<rparr>,
           \<lparr>hook_at_iteration_end = (\<lambda>i current_loss set_name s. Inr (s @ [(''B.iteration'', i, current_loss)])),
        hook_at_epoch_end = (\<lambda>i s. Inr (s @ [(''B.epoch'', i, 0)]))\<rparr>] 2
        @ RunBatch 20 # iteration_end_calls
          [\<lparr>hook_at_iteration_end = (\<lambda>i current_loss set_name s. Inr (s @ [(''A.iteration'', i, current_loss)])),
        hook_at_epoch_end = (\<lambda>i s. Inr (s @ [(''A.epoch'', i, 0)]))\<rparr>,
           \<lparr>hook_at_iteration_end = (\<lambda>i current_loss set_name s. Inr (s @ [(''B.iteration'', i, current_loss)])),
        hook_at_epoch_end = (\<lambda>i s. Inr (s @ [(''B.epoch'', i, 0)]))\<rparr>] 2
        @ epoch_end_calls
          [\<lparr>hook_at_iteration_end = (\<lambda>i current_loss set_name s. Inr (s @ [(''A.iteration'', i, current_loss)])),
        hook_at_epoch_end = (\<lambda>i s. Inr (s @ [(''A.epoch'', i, 0)]))\<rparr>,
           \<lparr>hook_at_iteration_end = (\<lambda>i current_loss set_name s. Inr (s @ [(''B.iteration'', i, current_loss)])),
        hook_at_epoch_end = (\<lambda>i s. Inr (s @ [(''B.epoch'', i, 0)]))\<rparr>] 2
        :: (int, int, (string \<times> int \<times> int) list) call list) = 4"
  using train_two_epochs_two_batches [of "\<lambda>batch s. Inr (batch, s)" "10 :: int" 20
      "[\<lparr>hook_at_iteration_end = (\<lambda>i current_loss set_name s. Inr (s @ [(''A.iteration'', i, current_loss)])),
        hook_at_epoch_end = (\<lambda>i s. Inr (s @ [(''A.epoch'', i, 0)]))\<rparr>,
        \<lparr>hook_at_iteration_end = (\<lambda>i current_loss set_name s. Inr (s @ [(''B.iteration'', i, current_loss)])),
        hook_at_epoch_end = (\<lambda>i s. Inr (s @ [(''B.epoch'', i, 0)]))\<rparr>]"
      "[] :: (string \<times> int \<times> int) list" 0]
  by (simp add: iteration_end_calls_def epoch_end_calls_def)

text \<open>
  With a generator instead, the second epoch has no batch: the assumption of a restartable
  sequence is needed.
\<close>

lemma train_generator_second_epoch:
  "train step (Generator [b1, b2]) 2 hooks s
   = perform step
       (RunBatch b1 # iteration_end_calls hooks 1
        @ RunBatch b2 # iteration_end_calls hooks 1
        @ epoch_end_calls hooks 1
        @ epoch_end_calls hooks 2) l0 s"
proof -
  have e: "[1..2] = [1, 2::int]" by (simp add: upto.simps)
  show ?thesis
    by (simp add: train_def e perform_iteration_end_calls perform_epoch_end_calls
        perform_epoch_end_calls_last split: sum.splits prod.splits)
qed

section \<open>Properties of LossHook\<close>

subsection \<open>The counters after any sequence of calls\<close>

lemma add_to_history_fields:
  "iter_interval (add_to_history h [(m, x)] i e s) = iter_interval h"
  "acc_loss (add_to_history h [(m, x)] i e s) = acc_loss h"
  "iter (add_to_history h [(m, x)] i e s) = iter h"
  "epoch_loss (add_to_history h [(m, x)] i e s) = epoch_loss h"
  "iter_epoch (add_to_history h [(m, x)] i e s) = iter_epoch h"
  by (simp_all add: add_to_history_def split: prod.splits)

lemma at_iteration_end_step:
  assumes k: "iter_interval h = Some k"
    and d1: "\<forall>s. (acc_loss h s = None) = (iter_epoch h s = None)"
    and d2: "\<forall>s. (iter h s = None) = (iter_epoch h s = None)"
    and d3: "\<forall>s. (epoch_loss h s = None) = (iter_epoch h s = None)"
  shows "iter_interval (snd (LossHook_at_iteration_end h e l s)) = Some k"
    and "iter_epoch (snd (LossHook_at_iteration_end h e l s))
         = (iter_epoch h)(s \<mapsto> (case iter_epoch h s of None \<Rightarrow> 0 | Some n \<Rightarrow> n) + 1)"
    and "epoch_loss (snd (LossHook_at_iteration_end h e l s))
         = (epoch_loss h)(s \<mapsto> (case epoch_loss h s of None \<Rightarrow> 0 | Some x \<Rightarrow> x) + 1)"
    and "\<forall>s'. (acc_loss (snd (LossHook_at_iteration_end h e l s)) s' = None)
              = (s' \<noteq> s \<and> iter_epoch h s' = None)"
    and "\<forall>s'. (iter (snd (LossHook_at_iteration_end h e l s)) s' = None)
              = (s' \<noteq> s \<and> iter_epoch h s' = None)"
proof -
  let ?h' = "snd (LossHook_at_iteration_end h e l s)"
  consider
    (fresh) "acc_loss h s = None" "iter_epoch h s = None" "iter h s = None"
      "epoch_loss h s = None"
    | (seen) al ie it el where "acc_loss h s = Some al" "iter_epoch h s = Some ie"
      "iter h s = Some it" "epoch_loss h s = Some el"
    using d1 [rule_format, of s] d2 [rule_format, of s] d3 [rule_format, of s]
    by (cases "iter_epoch h s") auto
  then have
    "iter_interval ?h' = Some k
     \<and> iter_epoch ?h' = (iter_epoch h)(s \<mapsto> (case iter_epoch h s of None \<Rightarrow> 0 | Some n \<Rightarrow> n) + 1)
     \<and> epoch_loss ?h' = (epoch_loss h)(s \<mapsto> (case epoch_loss h s of None \<Rightarrow> 0 | Some x \<Rightarrow> x) + 1)
     \<and> (\<forall>s'. (acc_loss ?h' s' = None) = (s' \<noteq> s \<and> acc_loss h s' = None))
     \<and> (\<forall>s'. (iter ?h' s' = None) = (s' \<noteq> s \<and> iter h s' = None))"
  proof cases
    case fresh
    then show ?thesis
      using k by (simp add: LossHook_at_iteration_end_def Let_def add_to_history_fields)
  next
    case seen
    then show ?thesis
      using k by (simp add: LossHook_at_iteration_end_def Let_def add_to_history_fields)
  qed
  then show "iter_interval ?h' = Some k"
    and "iter_epoch ?h' = (iter_epoch h)(s \<mapsto> (case iter_epoch h s of None \<Rightarrow> 0 | Some n \<Rightarrow> n) + 1)"
    and "epoch_loss ?h' = (epoch_loss h)(s \<mapsto> (case epoch_loss h s of None \<Rightarrow> 0 | Some x \<Rightarrow> x) + 1)"
    and "\<forall>s'. (acc_loss ?h' s' = None) = (s' \<noteq> s \<and> iter_epoch h s' = None)"
    and "\<forall>s'. (iter ?h' s' = None) = (s' \<noteq> s \<and> iter_epoch h s' = None)"
    using d1 d2 by simp_all
qed

lemma at_epoch_end_state:
  "snd (LossHook_at_epoch_end h e s) = h"
  by (simp add: LossHook_at_epoch_end_def split: option.splits)

lemma LossHook_calls_snoc:
  "LossHook_calls h (cs @ [c]) =
     (case c of
        CallIterationEnd e l s \<Rightarrow> snd (LossHook_at_iteration_end (LossHook_calls h cs) e l s)
      | CallEpochEnd e s \<Rightarrow> snd (LossHook_at_epoch_end (LossHook_calls h cs) e s))"
  by (induction h cs rule: LossHook_calls.induct) (auto split: LossHook_call.splits)

lemma iterations_of_snoc:
  "iterations_of s (cs @ [c]) =
     iterations_of s cs
     + (case c of CallIterationEnd e l s' \<Rightarrow> if s' = s then 1 else 0 | CallEpochEnd e s' \<Rightarrow> 0)"
  by (induction s cs rule: iterations_of.induct) (auto split: LossHook_call.splits)

lemma LossHook_calls_counts:
  "iter_interval (LossHook_calls (LossHook_init (Some k)) cs) = Some k
   \<and> (\<forall>s. iter_epoch (LossHook_calls (LossHook_init (Some k)) cs) s
            = (if iterations_of s cs = 0 \<and> s \<noteq> ''train'' then None
               else Some (int (iterations_of s cs))))
   \<and> (\<forall>s. epoch_loss (LossHook_calls (LossHook_init (Some k)) cs) s
            = (if iterations_of s cs = 0 \<and> s \<noteq> ''train'' then None
               else Some (real (iterations_of s cs))))
   \<and> (\<forall>s. (acc_loss (LossHook_calls (LossHook_init (Some k)) cs) s = None)
            = (iter_epoch (LossHook_calls (LossHook_init (Some k)) cs) s = None))
   \<and> (\<forall>s. (iter (LossHook_calls (LossHook_init (Some k)) cs) s = None)
            = (iter_epoch (LossHook_calls (LossHook_init (Some k)) cs) s = None))"
proof (induction cs rule: rev_induct)
  case Nil
  show ?case by (simp add: LossHook_init_def)
next
  case (snoc c cs)
  let ?h = "LossHook_calls (LossHook_init (Some k)) cs"
  from snoc have k: "iter_interval ?h = Some k"
    and ie: "\<forall>s. iter_epoch ?h s
            = (if iterations_of s cs = 0 \<and> s \<noteq> ''train'' then None
               else Some (int (iterations_of s cs)))"
    and el: "\<forall>s. epoch_loss ?h s
            = (if iterations_of s cs = 0 \<and> s \<noteq> ''train'' then None
               else Some (real (iterations_of s cs)))"
    and d1: "\<forall>s. (acc_loss ?h s = None) = (iter_epoch ?h s = None)"
    and d2: "\<forall>s. (iter ?h s = None) = (iter_epoch ?h s = None)"
    by blast+
  from ie el have d3: "\<forall>s. (epoch_loss ?h s = None) = (iter_epoch ?h s = None)"
    by simp
  show ?case
  proof (cases c)
    case (CallIterationEnd e l s)
    note st = at_iteration_end_step [OF k d1 d2 d3, of e l s]
    show ?thesis
      unfolding LossHook_calls_snoc iterations_of_snoc CallIterationEnd
      using st ie el by (simp add: algebra_simps)
  next
    case (CallEpochEnd e s)
    show ?thesis
      unfolding LossHook_calls_snoc iterations_of_snoc CallEpochEnd
      using k ie el d1 d2 by (simp add: at_epoch_end_state)
  qed
qed

subsection \<open>What at_epoch_end returns\<close>

text \<open>
  With an \<open>iter_interval\<close> that is not \<open>None\<close>, the value of \<open>at_epoch_end\<close> depends only on
  whether \<open>at_iteration_end\<close> was ever invoked for the set name: nothing sets the two
  per-epoch dictionaries back.
\<close>

lemma LossHook_at_epoch_end_after_calls:
  "(1 \<le> iterations_of s cs \<longrightarrow>
      fst (LossHook_at_epoch_end (LossHook_calls (LossHook_init (Some k)) cs) e s) = Inr 1)
   \<and> (iterations_of ''train'' cs = 0 \<longrightarrow>
      fst (LossHook_at_epoch_end (LossHook_calls (LossHook_init (Some k)) cs) e ''train'') = Inr 0)"
  using LossHook_calls_counts [of k cs]
  by (simp add: LossHook_at_epoch_end_def)

text \<open>A set name for which no iteration occurred has no entry: \<open>at_epoch_end\<close> raises.\<close>

lemma LossHook_at_epoch_end_unseen_set:
  "fst (LossHook_at_epoch_end (LossHook_init (Some 1)) 1 ''dev'') = Inl KeyError"
  by (simp add: LossHook_at_epoch_end_def LossHook_init_def)

text \<open>
  C10.  The code does not do what the claim says for an epoch without iterations.  A hook
  with \<open>iter_interval = 1\<close>: after one iteration in epoch 1, \<open>at_epoch_end(1)\<close> returns 1, as
  claimed.  Epoch 2 then has no iteration, and \<open>at_epoch_end(2)\<close> returns 1 again where the
  claim says 0: \<open>_iter_epoch['train']\<close> and \<open>_epoch_loss['train']\<close> still hold the count of
  epoch 1.  The only statements that reset them, \<open>self._epoch_loss[set_name] = 0\<close> and
  \<open>self._iter_epoch[set_name] = 0\<close>, are under \<open>if self._iter_interval is None\<close>, in a block
  that raises before it reaches them (last conjunct).
\<close>

theorem LossHook_at_epoch_end_no_reset:
  "fst (LossHook_at_epoch_end
          (LossHook_calls (LossHook_init (Some 1)) [CallIterationEnd 1 (1 / 2) ''train''])
          1 ''train'') = Inr 1
   \<and> fst (LossHook_at_epoch_end
          (LossHook_calls (LossHook_init (Some 1))
             [CallIterationEnd 1 (1 / 2) ''train'', CallEpochEnd 1 ''train''])
          2 ''train'') = Inr 1
   \<and> iter_epoch
         (LossHook_calls (LossHook_init (Some 1))
            [CallIterationEnd 1 (1 / 2) ''train'', CallEpochEnd 1 ''train''])
         ''train'' = Some 1
   \<and> epoch_loss
         (LossHook_calls (LossHook_init (Some 1))
            [CallIterationEnd 1 (1 / 2) ''train'', CallEpochEnd 1 ''train''])
         ''train'' = Some 1
   \<and> fst (LossHook_at_epoch_end (LossHook_init None) 1 ''train'') = Inl TypeError"
  by (simp add: LossHook_at_epoch_end_def LossHook_at_iteration_end_def LossHook_init_def
      add_to_history_def Let_def)

section \<open>Properties of XQAEvalHook.apply_metrics\<close>



section \<open>Properties of KBPEvalHook.at_test_time\<close>

subsection \<open>The code computes the specified ranks and average precision\<close>

lemma rankdata_min_neg: "rankdata_min (map uminus cs) = map (spec_rank cs) cs"
  by (simp add: rankdata_min_def spec_rank_def filter_map comp_def)

lemma mset_gold_filter:
  assumes "distinct answers"
  shows "mset (concat (map (\<lambda>a. filter (\<lambda>(cand, r). a = cand \<and> P r) zs) answers))
         = mset (filter (\<lambda>(cand, r). cand \<in> set answers \<and> P r) zs)"
  using assms
proof (induction answers)
  case Nil
  then show ?case by simp
next
  case (Cons a as)
  have "mset (filter (\<lambda>(cand, r). cand \<in> set (a # as) \<and> P r) zs)
        = mset (filter (\<lambda>(cand, r). a = cand \<and> P r) zs)
          + mset (filter (\<lambda>(cand, r). cand \<in> set as \<and> P r) zs)"
    using Cons.prems by (induction zs) auto
  with Cons show ?case by simp
qed

lemma sort_ans_ranks:
  assumes "distinct answers"
  shows "sort (ans_ranks_of answers cand_ids (rankdata_min (map uminus cs)))
         = spec_found_ranks cs cand_ids (set answers)"
proof -
  let ?zs = "zip cand_ids (map (spec_rank cs) cs)"
  have "ans_ranks_of answers cand_ids (rankdata_min (map uminus cs))
        = map snd (concat (map (\<lambda>a. filter (\<lambda>(cand, r). a = cand \<and> r \<le> 100) ?zs) answers))"
    by (simp add: ans_ranks_of_def rankdata_min_neg map_concat comp_def)
  moreover have "mset (map snd (concat (map (\<lambda>a. filter (\<lambda>(cand, r). a = cand \<and> r \<le> 100) ?zs)
                                          answers)))
        = mset (map snd (filter (\<lambda>(cand, r). cand \<in> set answers \<and> r \<le> 100) ?zs))"
    unfolding mset_map
    by (rule arg_cong [OF mset_gold_filter [OF assms]])
  ultimately have "mset (ans_ranks_of answers cand_ids (rankdata_min (map uminus cs)))
        = mset (map snd (filter (\<lambda>(cand, r). cand \<in> set answers \<and> r \<le> 100) ?zs))"
    by simp
  then show ?thesis
    unfolding spec_found_ranks_def by (metis properties_for_sort sorted_sort mset_sort)
qed

lemma precision_loop_sum:
  "precision_loop rs a p = p + sum_list (map (\<lambda>(k, r). real k / real r) (enumerate a rs))"
  by (induction rs arbitrary: a p) auto

lemma question_step_mean_ap:
  assumes "question_step get_sym reader_vocab q cs cand_ids answers acc = Inr acc'"
    and "distinct answers"
  shows "mean_ap acc'
         = mean_ap acc + spec_average_precision (spec_found_ranks cs cand_ids (set answers))"
proof -
  let ?ranks = "ans_ranks_of answers cand_ids (rankdata_min (map uminus cs))"
  have s: "sort ?ranks = spec_found_ranks cs cand_ids (set answers)"
    by (rule sort_ans_ranks [OF assms(2)])
  have l: "length (spec_found_ranks cs cand_ids (set answers)) = length ?ranks"
    by (simp flip: s)
  have e: "spec_found_ranks cs cand_ids (set answers) = [] \<longleftrightarrow> ?ranks = []"
    using l by (metis length_0_conv)
  from assms(1) show ?thesis
    by (auto simp: question_step_def Let_def s precision_loop_sum spec_average_precision_def
        l e split: if_splits option.splits sum.splits)
qed

lemma question_loop_mean_ap:
  assumes "question_loop get_sym reader_vocab d items acc = Inr acc'"
    and "\<forall>(q, answers) \<in> set items.
           map_of (q_cand_scores d) q = Some (S q) \<and> map_of (q_cand_ids d) q = Some (I q)
           \<and> distinct answers \<and> set answers = G q"
  shows "mean_ap acc' = mean_ap acc
           + sum_list (map (\<lambda>q. spec_average_precision (spec_found_ranks (S q) (I q) (G q)))
                        (map fst items))"
  using assms
proof (induction items arbitrary: acc)
  case Nil
  then show ?case by simp
next
  case (Cons item items)
  obtain q answers where item: "item = (q, answers)" by (cases item)
  from Cons.prems(2) item have
    cs: "map_of (q_cand_scores d) q = Some (S q)" and
    ids: "map_of (q_cand_ids d) q = Some (I q)" and
    dist: "distinct answers" and g: "set answers = G q" and
    rest: "\<forall>(q, answers) \<in> set items.
           map_of (q_cand_scores d) q = Some (S q) \<and> map_of (q_cand_ids d) q = Some (I q)
           \<and> distinct answers \<and> set answers = G q"
    by auto
  from Cons.prems(1) item cs ids obtain acc1 where
    step: "question_step get_sym reader_vocab q (S q) (I q) answers acc = Inr acc1" and
    loop: "question_loop get_sym reader_vocab d items acc1 = Inr acc'"
    by (auto split: sum.splits)
  from Cons.IH [OF loop rest] question_step_mean_ap [OF step dist] g
  show ?case by (simp add: item)
qed

subsection \<open>What the first loop collects\<close>

lemma map_of_dict_set: "map_of (dict_set d k v) = (map_of d)(k \<mapsto> v)"
  by (induction d) (auto simp: fun_eq_iff)

lemma keys_dict_set: "fst ` set (dict_set d k v) = insert k (fst ` set d)"
  by (simp add: map_of_dict_set flip: dom_map_of_conv_image_fst)

lemma distinct_dict_set:
  "distinct (map fst d) \<Longrightarrow> distinct (map fst (dict_set d k v))"
  by (induction d) (auto simp: keys_dict_set)

lemma collect_rows_append:
  "collect_rows (xs @ ys) d
   = (case collect_rows xs d of Inl e \<Rightarrow> Inl e | Inr d' \<Rightarrow> collect_rows ys d')"
  by (induction xs arbitrary: d) (auto split: list.splits)

lemma collect_batches_concat: "collect_batches batches d = collect_rows (concat batches) d"
  by (induction batches arbitrary: d) (auto simp: collect_rows_append split: sum.splits)

lemma spec_snoc:
  "spec_cand_scores (rows @ [r]) q
   = (if question_of r = q then logits_row r else spec_cand_scores rows q)"
  "spec_cand_ids (rows @ [r]) q
   = (if question_of r = q then candidate_ids_row r else spec_cand_ids rows q)"
  "spec_gold (rows @ [r]) q
   = (if question_of r = q then insert (correct_answers_row r) (spec_gold rows q)
      else spec_gold rows q)"
  by (simp_all add: spec_cand_scores_def spec_cand_ids_def spec_gold_def)

lemma spec_gold_empty: "q \<notin> question_of ` set rows \<Longrightarrow> spec_gold rows q = {}"
  by (auto simp: spec_gold_def)

text \<open>
  After the first loop, the three dictionaries hold, for exactly the questions of the rows,
  the scores and candidates of the question's latest row and the set of its correct answers.
\<close>

lemma collect_rows_spec:
  assumes "collect_rows rows \<lparr>q_cand_scores = [], q_cand_ids = [], q_answers = []\<rparr> = Inr d"
  shows "map_of (q_cand_scores d)
           = (\<lambda>q. if q \<in> question_of ` set rows then Some (spec_cand_scores rows q) else None)
       \<and> map_of (q_cand_ids d)
           = (\<lambda>q. if q \<in> question_of ` set rows then Some (spec_cand_ids rows q) else None)
       \<and> distinct (map fst (q_answers d))
       \<and> dom (map_of (q_answers d)) = question_of ` set rows
       \<and> (\<forall>q answers. map_of (q_answers d) q = Some answers \<longrightarrow>
             distinct answers \<and> set answers = spec_gold rows q)"
  using assms
proof (induction rows arbitrary: d rule: rev_induct)
  case Nil
  then have "d = \<lparr>q_cand_scores = [], q_cand_ids = [], q_answers = []\<rparr>" by simp
  then show ?case by simp
next
  case (snoc r rows)
  from snoc.prems obtain d1 where
    d1: "collect_rows rows \<lparr>q_cand_scores = [], q_cand_ids = [], q_answers = []\<rparr> = Inr d1" and
    last: "collect_rows [r] d1 = Inr d"
    by (auto simp: collect_rows_append split: sum.splits)
  from last obtain q tokens where q: "questions_row r = q # tokens"
    by (cases "questions_row r") auto
  then have qr: "question_of r = q" by (simp add: question_of_def)
  let ?old = "case map_of (q_answers d1) q of None \<Rightarrow> [] | Some s \<Rightarrow> s"
  from last q have d: "d = \<lparr>q_cand_scores = dict_set (q_cand_scores d1) q (logits_row r),
             q_cand_ids = dict_set (q_cand_ids d1) q (candidate_ids_row r),
             q_answers = dict_set (q_answers d1) q (set_add ?old (correct_answers_row r))\<rparr>"
    by simp
  note ih = snoc.IH [OF d1]
  note ih1 = ih [THEN conjunct1]
  note ih2 = ih [THEN conjunct2, THEN conjunct1]
  note ih3 = ih [THEN conjunct2, THEN conjunct2, THEN conjunct1]
  note ih4 = ih [THEN conjunct2, THEN conjunct2, THEN conjunct2, THEN conjunct1]
  note ih5 = ih [THEN conjunct2, THEN conjunct2, THEN conjunct2, THEN conjunct2]
  have old: "distinct ?old \<and> set ?old = spec_gold rows q"
  proof (cases "map_of (q_answers d1) q")
    case None
    then have "q \<notin> dom (map_of (q_answers d1))" by (simp add: domIff)
    with ih4 have "q \<notin> question_of ` set rows" by simp
    with None show ?thesis by (simp add: spec_gold_empty)
  next
    case (Some s)
    from ih5 [rule_format, OF Some] Some show ?thesis by simp
  qed
  then have new: "distinct (set_add ?old (correct_answers_row r))"
    "set (set_add ?old (correct_answers_row r))
     = insert (correct_answers_row r) (spec_gold rows q)"
    by (auto simp: set_add_def)
  have 1: "map_of (q_cand_scores d)
           = (\<lambda>q. if q \<in> question_of ` set (rows @ [r])
                   then Some (spec_cand_scores (rows @ [r]) q) else None)"
    by (simp add: d map_of_dict_set ih1 spec_snoc qr fun_eq_iff)
  have 2: "map_of (q_cand_ids d)
           = (\<lambda>q. if q \<in> question_of ` set (rows @ [r])
                   then Some (spec_cand_ids (rows @ [r]) q) else None)"
    by (simp add: d map_of_dict_set ih2 spec_snoc qr fun_eq_iff)
  have 3: "distinct (map fst (q_answers d))"
    using ih3 by (simp add: d distinct_dict_set)
  have 4: "dom (map_of (q_answers d)) = question_of ` set (rows @ [r])"
    using ih4 by (simp add: d map_of_dict_set qr)
  have 5: "\<forall>q' answers. map_of (q_answers d) q' = Some answers \<longrightarrow>
             distinct answers \<and> set answers = spec_gold (rows @ [r]) q'"
  proof (intro allI impI)
    fix q' answers
    assume a: "map_of (q_answers d) q' = Some answers"
    show "distinct answers \<and> set answers = spec_gold (rows @ [r]) q'"
    proof (cases "q' = q")
      case True
      with a have "answers = set_add ?old (correct_answers_row r)"
        by (simp add: d map_of_dict_set)
      with new True show ?thesis by (simp add: spec_snoc qr)
    next
      case False
      with a have "map_of (q_answers d1) q' = Some answers"
        by (simp add: d map_of_dict_set)
      from ih5 [rule_format, OF this] False show ?thesis by (simp add: spec_snoc qr)
    qed
  qed
  show ?case by (intro conjI) (rule 1, rule 2, rule 3, rule 4, rule 5)
qed


subsection \<open>The evaluation returns on well-formed predictions\<close>

text \<open>
  \<open>at_test_time\<close> returns when every row has a question id and at least as many scores as
  candidates, and the reader has a vocabulary whose \<open>get_sym\<close> returns.
\<close>

lemma collect_rows_returns:
  assumes "\<forall>r \<in> set rs. questions_row r \<noteq> [] \<and> length (candidate_ids_row r) \<le> length (logits_row r)"
    and "distinct (map fst (q_cand_ids d))"
    and "\<forall>q ids. map_of (q_cand_ids d) q = Some ids \<longrightarrow>
           (\<exists>s. map_of (q_cand_scores d) q = Some s \<and> length ids \<le> length s)"
    and "fst ` set (q_answers d) \<subseteq> dom (map_of (q_cand_ids d))"
  shows "\<exists>d'. collect_rows rs d = Inr d'
           \<and> distinct (map fst (q_cand_ids d'))
           \<and> (\<forall>q ids. map_of (q_cand_ids d') q = Some ids \<longrightarrow>
                 (\<exists>s. map_of (q_cand_scores d') q = Some s \<and> length ids \<le> length s))
           \<and> fst ` set (q_answers d') \<subseteq> dom (map_of (q_cand_ids d'))"
  using assms
proof (induction rs arbitrary: d)
  case Nil
  then show ?case by simp
next
  case (Cons r rs)
  from Cons.prems(1) obtain q qs where q: "questions_row r = q # qs"
    and len: "length (candidate_ids_row r) \<le> length (logits_row r)"
    by (cases "questions_row r") auto
  let ?old = "case map_of (q_answers d) q of None \<Rightarrow> [] | Some s \<Rightarrow> s"
  let ?d = "\<lparr>q_cand_scores = dict_set (q_cand_scores d) q (logits_row r),
             q_cand_ids = dict_set (q_cand_ids d) q (candidate_ids_row r),
             q_answers = dict_set (q_answers d) q (set_add ?old (correct_answers_row r))\<rparr>"
  have step: "collect_rows (r # rs) d = collect_rows rs ?d"
    using q by simp
  have 1: "\<forall>r \<in> set rs. questions_row r \<noteq> [] \<and> length (candidate_ids_row r) \<le> length (logits_row r)"
    using Cons.prems(1) by simp
  have 2: "distinct (map fst (q_cand_ids ?d))"
    using Cons.prems(2) by (simp add: distinct_dict_set)
  have 3: "\<forall>q' ids. map_of (q_cand_ids ?d) q' = Some ids \<longrightarrow>
           (\<exists>s. map_of (q_cand_scores ?d) q' = Some s \<and> length ids \<le> length s)"
    using Cons.prems(3) len by (auto simp: map_of_dict_set)
  have 4: "fst ` set (q_answers ?d) \<subseteq> dom (map_of (q_cand_ids ?d))"
    using Cons.prems(4) by (auto simp: map_of_dict_set keys_dict_set)
  from Cons.IH [OF 1 2 3 4] show ?case unfolding step .
qed

lemma collect_batches_returns:
  assumes "\<forall>batch \<in> set batches. \<forall>r \<in> set batch.
             questions_row r \<noteq> [] \<and> length (candidate_ids_row r) \<le> length (logits_row r)"
    and "distinct (map fst (q_cand_ids d))"
    and "\<forall>q ids. map_of (q_cand_ids d) q = Some ids \<longrightarrow>
           (\<exists>s. map_of (q_cand_scores d) q = Some s \<and> length ids \<le> length s)"
    and "fst ` set (q_answers d) \<subseteq> dom (map_of (q_cand_ids d))"
  shows "\<exists>d'. collect_batches batches d = Inr d'
           \<and> distinct (map fst (q_cand_ids d'))
           \<and> (\<forall>q ids. map_of (q_cand_ids d') q = Some ids \<longrightarrow>
                 (\<exists>s. map_of (q_cand_scores d') q = Some s \<and> length ids \<le> length s))
           \<and> fst ` set (q_answers d') \<subseteq> dom (map_of (q_cand_ids d'))"
  using assms
proof (induction batches arbitrary: d)
  case Nil
  then show ?case by simp
next
  case (Cons batch batches)
  from Cons.prems(1) have
    b: "\<forall>r \<in> set batch. questions_row r \<noteq> [] \<and> length (candidate_ids_row r) \<le> length (logits_row r)"
    and bs: "\<forall>batch \<in> set batches. \<forall>r \<in> set batch.
             questions_row r \<noteq> [] \<and> length (candidate_ids_row r) \<le> length (logits_row r)"
    by simp_all
  from collect_rows_returns [OF b Cons.prems(2,3,4)] obtain d1 where
    d1: "collect_rows batch d = Inr d1" and
    i: "distinct (map fst (q_cand_ids d1))"
       "\<forall>q ids. map_of (q_cand_ids d1) q = Some ids \<longrightarrow>
           (\<exists>s. map_of (q_cand_scores d1) q = Some s \<and> length ids \<le> length s)"
       "fst ` set (q_answers d1) \<subseteq> dom (map_of (q_cand_ids d1))"
    by blast
  from Cons.IH [OF bs i] show ?case by (simp add: d1)
qed

lemma qa_scores_of_returns:
  assumes "\<forall>(q, ids) \<in> set items.
             \<exists>s. map_of (q_cand_scores d) q = Some s \<and> length ids \<le> length s"
  shows "\<exists>qa_scores. qa_scores_of d items = Inr qa_scores"
  using assms
proof (induction items)
  case Nil
  then show ?case by simp
next
  case (Cons item items)
  obtain q ids where item: "item = (q, ids)" by (cases item)
  from Cons.prems item obtain s where "map_of (q_cand_scores d) q = Some s" "length ids \<le> length s"
    by auto
  moreover from Cons obtain qa where "qa_scores_of d items = Inr qa" by auto
  ultimately show ?case by (simp add: item)
qed

lemma question_step_returns:
  assumes "\<not> isl (get_sym v q)"
  shows "\<exists>acc'. question_step get_sym (Some v) q cs cand_ids answers acc = Inr acc'"
  using assms
  by (cases "get_sym v q") (auto simp: question_step_def Let_def)

lemma question_loop_returns:
  assumes "\<forall>(q, answers) \<in> set items.
             map_of (q_cand_scores d) q \<noteq> None \<and> map_of (q_cand_ids d) q \<noteq> None"
    and "\<forall>q. \<not> isl (get_sym v q)"
  shows "\<exists>acc'. question_loop get_sym (Some v) d items acc = Inr acc'"
  using assms(1)
proof (induction items arbitrary: acc)
  case Nil
  then show ?case by simp
next
  case (Cons item items)
  obtain q answers where item: "item = (q, answers)" by (cases item)
  from Cons.prems item obtain s ids where
    s: "map_of (q_cand_scores d) q = Some s" and ids: "map_of (q_cand_ids d) q = Some ids"
    by auto
  from assms(2) have "\<not> isl (get_sym v q)" by simp
  from question_step_returns [where get_sym = get_sym and v = v and q = q, OF this]
  obtain acc1 where
    step: "question_step get_sym (Some v) q s ids answers acc = Inr acc1" by blast
  from Cons.IH [of acc1] Cons.prems obtain acc' where
    "question_loop get_sym (Some v) d items acc1 = Inr acc'" by auto
  with s ids step show ?case by (simp add: item)
qed

lemma KBPEvalHook_at_test_time_returns:
  assumes "\<forall>batch \<in> set batches. \<forall>r \<in> set batch.
             questions_row r \<noteq> [] \<and> length (candidate_ids_row r) \<le> length (logits_row r)"
    and "\<forall>q. \<not> isl (get_sym v q)"
  shows "\<exists>m w. KBPEvalHook_at_test_time get_sym (Some v) batches = Inr (m, w)"
proof -
  from collect_batches_returns [OF assms(1), of "\<lparr>q_cand_scores = [], q_cand_ids = [], q_answers = []\<rparr>"]
  obtain d where
    d: "collect_batches batches \<lparr>q_cand_scores = [], q_cand_ids = [], q_answers = []\<rparr> = Inr d" and
    i1: "distinct (map fst (q_cand_ids d))" and
    i2: "\<forall>q ids. map_of (q_cand_ids d) q = Some ids \<longrightarrow>
           (\<exists>s. map_of (q_cand_scores d) q = Some s \<and> length ids \<le> length s)" and
    i3: "fst ` set (q_answers d) \<subseteq> dom (map_of (q_cand_ids d))"
    by auto
  have "\<forall>(q, ids) \<in> set (q_cand_ids d).
          \<exists>s. map_of (q_cand_scores d) q = Some s \<and> length ids \<le> length s"
    using i1 i2 by (auto dest: map_of_is_SomeI)
  from qa_scores_of_returns [OF this] obtain qa where
    qa: "qa_scores_of d (q_cand_ids d) = Inr qa" by blast
  have "\<forall>(q, answers) \<in> set (q_answers d).
          map_of (q_cand_scores d) q \<noteq> None \<and> map_of (q_cand_ids d) q \<noteq> None"
  proof (clarify, rule conjI)
    fix q answers
    assume "(q, answers) \<in> set (q_answers d)"
    then have "q \<in> dom (map_of (q_cand_ids d))" using i3 by force
    then obtain ids where ids: "map_of (q_cand_ids d) q = Some ids" by auto
    then show "map_of (q_cand_ids d) q \<noteq> None" by simp
    from i2 ids show "map_of (q_cand_scores d) q \<noteq> None" by fastforce
  qed
  from question_loop_returns [where get_sym = get_sym and v = v, OF this assms(2)]
  obtain acc where
    "question_loop get_sym (Some v) d (q_answers d) \<lparr>mean_ap = 0, wmap = 0, qd = 0, md = 0\<rparr>
     = Inr acc"
    by blast
  with d qa show ?thesis by (simp add: KBPEvalHook_at_test_time_def)
qed



subsection \<open>Mean average precision\<close>

lemmas kbp_defs =
  KBPEvalHook_at_test_time_def question_step_def ans_ranks_of_def rankdata_min_def
  set_add_def Let_def

text \<open>
  C3.  When \<open>at_test_time\<close> returns, its mean average precision is the specified one of the
  predictions it was given: the questions are those of the rows; each question's candidates
  (those of its latest row) are ranked by descending score, tied scores sharing the minimum
  rank (the ranks the code computes are \<open>spec_rank\<close>; for the scores \<open>[0.5, 0.9, 0.5, 0.1]\<close>
  they are \<open>[2, 1, 2, 4]\<close>); only the question's gold answers of rank at most 100 count; the
  precision of the \<open>k\<close>-th found gold answer in increasing rank order is \<open>k\<close> over its rank;
  and the mean of these per question is averaged over the questions.  For one question with
  candidate scores \<open>[0.9, 0.5, 0.1]\<close> and the gold candidate scored \<open>0.5\<close>, the ranks are
  \<open>[1, 2, 3]\<close>, the gold rank is 2, the average precision is \<open>1/2\<close>, and \<open>at_test_time\<close>,
  for a reader whose vocabulary knows the question, returns the mean average precision
  \<open>1/2\<close>.  (By \<open>KBPEvalHook_at_test_time_returns\<close> it returns on all well-formed predictions
  for such a reader.)
\<close>

theorem KBPEvalHook_at_test_time_map:
  "(KBPEvalHook_at_test_time get_sym reader_vocab batches = Inr (m, w) \<longrightarrow>
      m = spec_mean_average_precision (concat batches))
   \<and> rankdata_min (map uminus cand_scores) = map (spec_rank cand_scores) cand_scores
   \<and> rankdata_min (map uminus [5 / 10, 9 / 10, 5 / 10, 1 / 10]) = [2, 1, 2, 4]
   \<and> rankdata_min (map uminus [9 / 10, 5 / 10, 1 / 10]) = [1, 2, 3]
   \<and> spec_found_ranks [9 / 10, 5 / 10, 1 / 10] [11, 12, 13] {12} = [2]
   \<and> spec_average_precision [2] = 1 / 2
   \<and> KBPEvalHook_at_test_time (\<lambda>v q. Inr ''entity'') (Some [''entity'' \<mapsto> 7])
         [[\<lparr>questions_row = [7], correct_answers_row = 12,
              logits_row = [9 / 10, 5 / 10, 1 / 10], candidate_ids_row = [11, 12, 13]\<rparr>]]
       = Inr (1 / 2, 1 / 2)"
proof (intro conjI impI)
  assume a: "KBPEvalHook_at_test_time get_sym reader_vocab batches = Inr (m, w)"
  let ?rows = "concat batches"
  let ?Q = "question_of ` set ?rows"
  let ?ap = "spec_question_average_precision ?rows"
  from a obtain d acc where
    cb: "collect_batches batches \<lparr>q_cand_scores = [], q_cand_ids = [], q_answers = []\<rparr> = Inr d" and
    ql: "question_loop get_sym reader_vocab d (q_answers d)
           \<lparr>mean_ap = 0, wmap = 0, qd = 0, md = 0\<rparr> = Inr acc" and
    m: "m = (if length (q_answers d) \<noteq> 0 then mean_ap acc / real (length (q_answers d)) else 0)"
    by (auto simp: KBPEvalHook_at_test_time_def split: sum.splits)
  from cb have cr: "collect_rows ?rows \<lparr>q_cand_scores = [], q_cand_ids = [], q_answers = []\<rparr> = Inr d"
    by (simp add: collect_batches_concat)
  note sp = collect_rows_spec [OF cr]
  note sp1 = sp [THEN conjunct1]
  note sp2 = sp [THEN conjunct2, THEN conjunct1]
  note sp3 = sp [THEN conjunct2, THEN conjunct2, THEN conjunct1]
  note sp4 = sp [THEN conjunct2, THEN conjunct2, THEN conjunct2, THEN conjunct1]
  note sp5 = sp [THEN conjunct2, THEN conjunct2, THEN conjunct2, THEN conjunct2]
  have keys: "set (map fst (q_answers d)) = ?Q"
    using sp4 by (simp add: dom_map_of_conv_image_fst)
  have items: "\<forall>(q, answers) \<in> set (q_answers d).
           map_of (q_cand_scores d) q = Some (spec_cand_scores ?rows q)
           \<and> map_of (q_cand_ids d) q = Some (spec_cand_ids ?rows q)
           \<and> distinct answers \<and> set answers = spec_gold ?rows q"
  proof (clarify)
    fix q answers
    assume i: "(q, answers) \<in> set (q_answers d)"
    with sp3 have mo: "map_of (q_answers d) q = Some answers" by (rule map_of_is_SomeI)
    from i keys have q: "q \<in> ?Q" by force
    from sp5 [rule_format, OF mo] q
    show "map_of (q_cand_scores d) q = Some (spec_cand_scores ?rows q)
           \<and> map_of (q_cand_ids d) q = Some (spec_cand_ids ?rows q)
           \<and> distinct answers \<and> set answers = spec_gold ?rows q"
      unfolding sp1 sp2 by simp
  qed
  note sum = question_loop_mean_ap [where S = "spec_cand_scores ?rows"
      and I = "spec_cand_ids ?rows" and G = "spec_gold ?rows", OF ql items]
  have apeq: "(\<lambda>q. spec_average_precision
                 (spec_found_ranks (spec_cand_scores ?rows q) (spec_cand_ids ?rows q)
                    (spec_gold ?rows q))) = ?ap"
    by (rule ext) (simp add: spec_question_average_precision_def)
  from sum have "mean_ap acc = sum_list (map ?ap (map fst (q_answers d)))"
    by (simp add: apeq)
  also have "\<dots> = sum ?ap (set (map fst (q_answers d)))"
    using sp3 by (rule sum_list_distinct_conv_sum_set)
  finally have total: "mean_ap acc = sum ?ap ?Q"
    unfolding keys .
  have "length (q_answers d) = length (map fst (q_answers d))" by simp
  also have "\<dots> = card (set (map fst (q_answers d)))"
    using sp3 by (rule distinct_card [symmetric])
  finally have len: "length (q_answers d) = card ?Q"
    unfolding keys .
  have "card ?Q = 0 \<longleftrightarrow> ?rows = []" by simp
  with m total len show "m = spec_mean_average_precision (concat batches)"
    by (simp add: spec_mean_average_precision_def)
next
  show "rankdata_min (map uminus cand_scores) = map (spec_rank cand_scores) cand_scores"
    by (rule rankdata_min_neg)
next
  show "rankdata_min (map uminus [5 / 10, 9 / 10, 5 / 10, 1 / 10]) = [2, 1, 2, 4]"
    by (simp add: rankdata_min_def)
next
  show "rankdata_min (map uminus [9 / 10, 5 / 10, 1 / 10]) = [1, 2, 3]"
    by (simp add: rankdata_min_def)
next
  show "spec_found_ranks [9 / 10, 5 / 10, 1 / 10] [11, 12, 13] {12} = [2]"
    by (simp add: spec_found_ranks_def spec_rank_def)
next
  show "spec_average_precision [2] = 1 / 2"
    by (simp add: spec_average_precision_def enumerate_eq_zip)
next
  show "KBPEvalHook_at_test_time (\<lambda>v q. Inr ''entity'') (Some [''entity'' \<mapsto> 7])
         [[\<lparr>questions_row = [7], correct_answers_row = 12,
              logits_row = [9 / 10, 5 / 10, 1 / 10], candidate_ids_row = [11, 12, 13]\<rparr>]]
       = Inr (1 / 2, 1 / 2)"
    by (simp add: kbp_defs)
qed

text \<open>
  Two batches, three rows, two questions: question 7 has two rows and the gold answers 12
  (rank 2) and 11 (rank 1), average precision 1; question 8 has the gold answer 13, tied at
  rank 2 with candidate 11, average precision \<open>1/2\<close>.
\<close>

theorem KBPEvalHook_at_test_time_map_witness:
  "KBPEvalHook_at_test_time (\<lambda>v q. Inr ''entity'') (Some [''entity'' \<mapsto> 7])
     [[\<lparr>questions_row = [7, 3], correct_answers_row = 12,
             logits_row = [9 / 10, 5 / 10, 1 / 10], candidate_ids_row = [11, 12, 13]\<rparr>,
       \<lparr>questions_row = [7, 3], correct_answers_row = 11,
             logits_row = [9 / 10, 5 / 10, 1 / 10], candidate_ids_row = [11, 12, 13]\<rparr>],
      [\<lparr>questions_row = [8], correct_answers_row = 13,
             logits_row = [5 / 10, 9 / 10, 5 / 10], candidate_ids_row = [11, 12, 13]\<rparr>]]
   = Inr (3 / 4, 5 / 6)
   \<and> spec_mean_average_precision
       [\<lparr>questions_row = [7, 3], correct_answers_row = 12,
             logits_row = [9 / 10, 5 / 10, 1 / 10], candidate_ids_row = [11, 12, 13]\<rparr>,
        \<lparr>questions_row = [7, 3], correct_answers_row = 11,
             logits_row = [9 / 10, 5 / 10, 1 / 10], candidate_ids_row = [11, 12, 13]\<rparr>,
        \<lparr>questions_row = [8], correct_answers_row = 13,
             logits_row = [5 / 10, 9 / 10, 5 / 10], candidate_ids_row = [11, 12, 13]\<rparr>]
     = 3 / 4"
proof -
  have c: "KBPEvalHook_at_test_time (\<lambda>v q. Inr ''entity'') (Some [''entity'' \<mapsto> 7])
     [[\<lparr>questions_row = [7, 3], correct_answers_row = 12,
             logits_row = [9 / 10, 5 / 10, 1 / 10], candidate_ids_row = [11, 12, 13]\<rparr>,
       \<lparr>questions_row = [7, 3], correct_answers_row = 11,
             logits_row = [9 / 10, 5 / 10, 1 / 10], candidate_ids_row = [11, 12, 13]\<rparr>],
      [\<lparr>questions_row = [8], correct_answers_row = 13,
             logits_row = [5 / 10, 9 / 10, 5 / 10], candidate_ids_row = [11, 12, 13]\<rparr>]]
   = Inr (3 / 4, 5 / 6)"
    by (simp add: kbp_defs)
  from KBPEvalHook_at_test_time_map [of "(\<lambda>v q. Inr ''entity'')" "(Some [''entity'' \<mapsto> 7])"
     "[[\<lparr>questions_row = [7, 3], correct_answers_row = 12,
             logits_row = [9 / 10, 5 / 10, 1 / 10], candidate_ids_row = [11, 12, 13]\<rparr>,
        \<lparr>questions_row = [7, 3], correct_answers_row = 11,
             logits_row = [9 / 10, 5 / 10, 1 / 10], candidate_ids_row = [11, 12, 13]\<rparr>],
       [\<lparr>questions_row = [8], correct_answers_row = 13,
             logits_row = [5 / 10, 9 / 10, 5 / 10], candidate_ids_row = [11, 12, 13]\<rparr>]]" "3 / 4" "5 / 6" "[]"] c
  show ?thesis by simp
qed

text \<open>Without a vocabulary the log line of the first question with a found answer raises.\<close>

lemma KBPEvalHook_at_test_time_no_vocab:
  "KBPEvalHook_at_test_time get_sym None
         [[\<lparr>questions_row = [7], correct_answers_row = 12,
              logits_row = [9 / 10, 5 / 10, 1 / 10], candidate_ids_row = [11, 12, 13]\<rparr>]]
       = Inl AttributeError"
  by (simp add: kbp_defs)

section \<open>Properties of SharedResources\<close>

text \<open>The two artifacts of a store are at different paths.\<close>

lemma vocab_path_neq: "path @ ''_vocab'' \<noteq> path"
  by simp

text \<open>
  \<open>store\<close> returns exactly when both artifacts can be opened for writing and the object has
  a vocabulary.  In particular it raises at the empty path and in a directory that does not
  exist.
\<close>

lemma SharedResources_store_returns:
  "fst (SharedResources_store self path fs) = Inr () \<longleftrightarrow>
     open_wb path fs = Inr () \<and> vocab self \<noteq> None
     \<and> open_wb (path @ ''_vocab'') (fs(path \<mapsto> PickleFile (config self) (attrs self))) = Inr ()"
  by (auto simp: SharedResources_store_def Vocab_store_def Let_def
      split: sum.splits option.splits)

lemma SharedResources_store_raises:
  "SharedResources_store self [] fs = (Inl FileNotFoundError, fs)"
  "SharedResources_store self ''out/sr'' Map.empty = (Inl FileNotFoundError, Map.empty)"
  by (simp_all add: SharedResources_store_def open_wb_def dirname_def)

text \<open>
  C5.  When \<open>store(path)\<close> on a \<open>SharedResources\<close> object returns, \<open>load(path)\<close> on a fresh
  instance returns and leaves the instance with the vocabulary of the stored object (every
  token maps to the same id), an equal config mapping, and equal other attributes.
\<close>

theorem SharedResources_store_load_roundtrip:
  assumes "SharedResources_store self path fs = (Inr (), fs')"
  shows "fst (SharedResources_load (SharedResources_init None None) path fs') = Inr ()
       \<and> vocab self \<noteq> None
       \<and> vocab (snd (SharedResources_load (SharedResources_init None None) path fs'))
           = vocab self
       \<and> config (snd (SharedResources_load (SharedResources_init None None) path fs'))
           = config self
       \<and> attrs (snd (SharedResources_load (SharedResources_init None None) path fs'))
           = attrs self"
proof -
  from assms obtain v where v: "vocab self = Some v"
    and fs': "fs' = (fs(path \<mapsto> PickleFile (config self) (attrs self)))
                      (path @ ''_vocab'' \<mapsto> VocabFile v)"
    by (auto simp: SharedResources_store_def Vocab_store_def Let_def
        split: sum.splits option.splits)
  have "fs' path = Some (PickleFile (config self) (attrs self))"
    and "fs' (path @ ''_vocab'') = Some (VocabFile v)"
    using vocab_path_neq [of path] by (simp_all add: fs')
  then show ?thesis
    using v by (simp add: SharedResources_load_def SharedResources_init_def Vocab_load_def)
qed

theorem SharedResources_store_load_roundtrip_witness:
  "SharedResources_store
     \<lparr>config = [''name'' \<mapsto> PyStr ''reader'', ''repr_dim'' \<mapsto> PyInt 100],
            vocab = Some [''the'' \<mapsto> 0, ''cat'' \<mapsto> 1],
            attrs = [''answer_size'' \<mapsto> PyInt 3]\<rparr>
     ''out/sr'' [''out'' \<mapsto> Directory]
   = (Inr (),
      [''out'' \<mapsto> Directory,
           ''out/sr'' \<mapsto> PickleFile [''name'' \<mapsto> PyStr ''reader'', ''repr_dim'' \<mapsto> PyInt 100]
                          [''answer_size'' \<mapsto> PyInt 3],
           ''out/sr_vocab'' \<mapsto> VocabFile [''the'' \<mapsto> 0, ''cat'' \<mapsto> 1]])
   \<and> SharedResources_load (SharedResources_init None None) ''out/sr''
      [''out'' \<mapsto> Directory,
           ''out/sr'' \<mapsto> PickleFile [''name'' \<mapsto> PyStr ''reader'', ''repr_dim'' \<mapsto> PyInt 100]
                          [''answer_size'' \<mapsto> PyInt 3],
           ''out/sr_vocab'' \<mapsto> VocabFile [''the'' \<mapsto> 0, ''cat'' \<mapsto> 1]]
   = (Inr (),
      \<lparr>config = [''name'' \<mapsto> PyStr ''reader'', ''repr_dim'' \<mapsto> PyInt 100],
            vocab = Some [''the'' \<mapsto> 0, ''cat'' \<mapsto> 1],
            attrs = [''answer_size'' \<mapsto> PyInt 3]\<rparr>)"
proof -
  have s: "SharedResources_store
     \<lparr>config = [''name'' \<mapsto> PyStr ''reader'', ''repr_dim'' \<mapsto> PyInt 100],
            vocab = Some [''the'' \<mapsto> 0, ''cat'' \<mapsto> 1],
            attrs = [''answer_size'' \<mapsto> PyInt 3]\<rparr>
     ''out/sr'' [''out'' \<mapsto> Directory]
   = (Inr (),
      [''out'' \<mapsto> Directory,
           ''out/sr'' \<mapsto> PickleFile [''name'' \<mapsto> PyStr ''reader'', ''repr_dim'' \<mapsto> PyInt 100]
                          [''answer_size'' \<mapsto> PyInt 3],
           ''out/sr_vocab'' \<mapsto> VocabFile [''the'' \<mapsto> 0, ''cat'' \<mapsto> 1]])"
    by (simp add: SharedResources_store_def Vocab_store_def open_wb_def dirname_def Let_def)
  from SharedResources_store_load_roundtrip [OF s] s
  show ?thesis
    by (simp add: SharedResources_load_def SharedResources_init_def Vocab_load_def)
qed

text \<open>
  C6 (as claimed) fails in one part: when the config artifact does not exist, \<open>load\<close> does not
  fall back to an empty config, it leaves the config of the instance as it is.  Here the
  instance was constructed with the config \<open>{"repr_dim": 100}\<close>, only the vocabulary artifact
  exists, and after \<open>load\<close> the config still has \<open>repr_dim\<close>.
\<close>

theorem SharedResources_load_keeps_config:
  "[''out/sr_vocab'' \<mapsto> VocabFile [''the'' \<mapsto> 0]] ''out/sr'' = None
   \<and> fst (SharedResources_load
            (SharedResources_init None (Some [''repr_dim'' \<mapsto> PyInt 100]))
            ''out/sr'' [''out/sr_vocab'' \<mapsto> VocabFile [''the'' \<mapsto> 0]]) = Inr ()
   \<and> config (snd (SharedResources_load
                    (SharedResources_init None (Some [''repr_dim'' \<mapsto> PyInt 100]))
                    ''out/sr'' [''out/sr_vocab'' \<mapsto> VocabFile [''the'' \<mapsto> 0]]))
         ''repr_dim'' = Some (PyInt 100)"
  by (simp add: SharedResources_load_def SharedResources_init_def Vocab_load_def)

text \<open>
  C6 (amended).  When the config artifact at \<open>path\<close> does not exist and the vocabulary
  artifact at \<open>path + "_vocab"\<close> does, \<open>load(path)\<close> returns and changes nothing but the
  vocabulary: the config stays as it was, which is the empty config for an instance
  constructed without a config.  When the vocabulary artifact does not exist, \<open>load(path)\<close>
  raises (the vocabulary's \<open>FileNotFoundError\<close>, when the config artifact does not exist
  either).
\<close>

theorem SharedResources_load_missing:
  "(fs path = None \<and> fs (path @ ''_vocab'') = Some (VocabFile v) \<longrightarrow>
      SharedResources_load self path fs = (Inr (), self\<lparr>vocab := Some v\<rparr>))
   \<and> (fs path = None \<and> fs (path @ ''_vocab'') = Some (VocabFile v) \<longrightarrow>
      config (snd (SharedResources_load (SharedResources_init vocab_arg None) path fs))
      = Map.empty)
   \<and> (fs (path @ ''_vocab'') = None \<longrightarrow> isl (fst (SharedResources_load self path fs)))
   \<and> (fs (path @ ''_vocab'') = None \<and> fs path = None \<longrightarrow>
      fst (SharedResources_load self path fs) = Inl FileNotFoundError)"
  by (auto simp: SharedResources_load_def SharedResources_init_def Vocab_load_def
      split: option.splits artifact.splits)

theorem SharedResources_load_missing_witness:
  "SharedResources_load
     (SharedResources_init None (Some [''repr_dim'' \<mapsto> PyInt 100]))
     ''out/sr'' [''out/sr_vocab'' \<mapsto> VocabFile [''the'' \<mapsto> 0]]
   = (Inr (), \<lparr>config = [''repr_dim'' \<mapsto> PyInt 100], vocab = Some [''the'' \<mapsto> 0],
               attrs = Map.empty\<rparr>)
   \<and> config (snd (SharedResources_load (SharedResources_init None None)
                    ''out/sr'' [''out/sr_vocab'' \<mapsto> VocabFile [''the'' \<mapsto> 0]]))
       = Map.empty
   \<and> fst (SharedResources_load (SharedResources_init None None) ''out/sr''
            [''out/sr'' \<mapsto> PickleFile [''repr_dim'' \<mapsto> PyInt 100] Map.empty])
       = Inl FileNotFoundError
   \<and> fst (SharedResources_load (SharedResources_init None None) ''out/sr'' Map.empty)
       = Inl FileNotFoundError"
  using
    SharedResources_load_missing [of
      "[''out/sr_vocab'' \<mapsto> VocabFile [''the'' \<mapsto> 0]]" "''out/sr''" "[''the'' \<mapsto> 0]"
      "SharedResources_init None (Some [''repr_dim'' \<mapsto> PyInt 100])" None]
    SharedResources_load_missing [of Map.empty "''out/sr''" Map.empty
      "SharedResources_init None None" None]
  by (simp add: SharedResources_load_def SharedResources_init_def Vocab_load_def)

end
